theory Spec2Isabelle
  imports Complex_Main "HOL-Library.Char_ord" "HOL-Library.List_Lexorder" "HOL-Library.Multiset"
    "HOL-Library.AList" "HOL-Library.Sublist"
begin

unbundle bit_operations_syntax

section \<open>Python values used by models.py\<close>

text \<open>
  A Python \<open>float\<close> is an IEEE-754 double.  A finite double is kept as its sign bit, its
  integer significand and its binary exponent, so that \<open>Finite s m e\<close> stands for
  \<open>(-1)^s * m * 2^e\<close> exactly; the two zeros are \<open>Finite False 0 e\<close> and
  \<open>Finite True 0 e\<close>.  The hardware format has \<open>m < 2^53\<close> and
  \<open>-1074 \<le> e \<le> 971\<close>; nothing below depends on these bounds, so every statement
  proved for all \<open>Finite s m e\<close> holds for every double.
\<close>

datatype pyfloat = Finite bool nat int | Infinity bool | NaN

definition is_double :: "pyfloat \<Rightarrow> bool" where
  "is_double x = (case x of Finite s m e \<Rightarrow> m < 2 ^ 53 \<and> - 1074 \<le> e \<and> e \<le> 971 | _ \<Rightarrow> True)"

fun isfinite :: "pyfloat \<Rightarrow> bool" where
  "isfinite (Finite s m e) = True"
| "isfinite (Infinity s) = False"
| "isfinite NaN = False"

text \<open>
  The errors of the specification's taxonomy, next to the one exception the Python code can
  raise itself (\<open>TypeError\<close>, from a dataclass constructor called with wrong keywords).
\<close>

datatype error = TypeError | InvalidConfiguration | MissingField | UnexpectedField | LengthMismatch

section \<open>\<open>format_number\<close>: the format specification \<open>.6f\<close>\<close>

text \<open>
  \<open>f"{n:.6f}"\<close> prints the exact binary value of \<open>n\<close> correctly rounded to six
  fractional digits; CPython rounds a tie to the even neighbour.  The sign is printed whenever
  the sign bit is set, also for \<open>-0.0\<close> and for a negative value that rounds to zero.
  A NaN prints as \<open>nan\<close> (no sign), an infinity as \<open>inf\<close> or \<open>-inf\<close>.
\<close>

definition round_half_even_div :: "nat \<Rightarrow> nat \<Rightarrow> nat" where
  "round_half_even_div n d =
     (if 2 * (n mod d) < d then n div d
      else if d < 2 * (n mod d) then n div d + 1
      else if even (n div d) then n div d else n div d + 1)"

text \<open>The magnitude times \<open>10^6\<close>, rounded to an integer.\<close>

definition scaled6 :: "nat \<Rightarrow> int \<Rightarrow> nat" where
  "scaled6 m e =
     (if 0 \<le> e then m * 2 ^ nat e * 10 ^ 6
      else round_half_even_div (m * 10 ^ 6) (2 ^ nat (- e)))"

definition digit_char :: "nat \<Rightarrow> char" where
  "digit_char d = ''0123456789'' ! d"

function dec :: "nat \<Rightarrow> string" where
  "dec n = (if n < 10 then [digit_char n] else dec (n div 10) @ [digit_char (n mod 10)])"
  by pat_completeness auto
termination
  by (relation "measure id") auto

declare dec.simps [simp del]

text \<open>The last \<open>k\<close> decimal digits of a number, with leading zeros.\<close>

fun digits_fixed :: "nat \<Rightarrow> nat \<Rightarrow> string" where
  "digits_fixed 0 n = []"
| "digits_fixed (Suc k) n = digits_fixed k (n div 10) @ [digit_char (n mod 10)]"

definition fixed6 :: "nat \<Rightarrow> string" where
  "fixed6 N = dec (N div 10 ^ 6) @ ''.'' @ digits_fixed 6 (N mod 10 ^ 6)"

fun format_number :: "pyfloat \<Rightarrow> string" where
  "format_number (Finite s m e) = (if s then ''-'' else '''') @ fixed6 (scaled6 m e)"
| "format_number (Infinity s) = (if s then ''-inf'' else ''inf'')"
| "format_number NaN = ''nan''"

section \<open>The \<open>Aircraft\<close> dataclass\<close>

text \<open>
  A dataclass does not check the annotated types, so the record is polymorphic in what the
  scalar fields (\<open>'s\<close>) and the flap fields (\<open>'l\<close>) hold.  \<open>__hash__\<close> is defined on
  the instances the annotations describe: floats and lists of floats.
\<close>

record ('s, 'l) Aircraft =
  m_total :: 's
  m_fuselage :: 's
  wing_density :: 's
  spar_density :: 's
  mainwing_span :: 's
  mainwing_AR :: 's
  mainwing_taper :: 's
  mainwing_twist :: 's
  mainwing_sweepback :: 's
  mainwing_dihedral :: 's
  mainwing_incidence :: 's
  flap_start :: 'l
  flap_end :: 'l
  flap_angle :: 'l
  flap_c_ratio :: 'l
  horizontal_volume_ratio :: 's
  horizontal_area_ratio :: 's
  horizontal_AR :: 's
  horizontal_taper :: 's
  horizontal_ThickChord :: 's
  vertical_volume_ratio :: 's
  vertical_taper :: 's
  vertical_ThickChord :: 's

type_synonym aircraft = "(pyfloat, pyfloat list) Aircraft"

section \<open>\<open>json.dumps(hash_dict, sort_keys=True)\<close>\<close>

text \<open>The values of \<open>hash_dict\<close> are strings and lists of strings.\<close>

datatype jvalue = JStr string | JList "string list"

text \<open>
  \<open>hash_dict\<close> as the dict literal builds it: the items in insertion order
  (lines 55 to 80 of models.py).
\<close>

definition hash_dict :: "aircraft \<Rightarrow> (string \<times> jvalue) list" where
  "hash_dict a =
    [(''m_total'', JStr (format_number (m_total a))),
     (''m_fuselage'', JStr (format_number (m_fuselage a))),
     (''wing_density'', JStr (format_number (wing_density a))),
     (''spar_density'', JStr (format_number (spar_density a))),
     (''mainwing_span'', JStr (format_number (mainwing_span a))),
     (''mainwing_AR'', JStr (format_number (mainwing_AR a))),
     (''mainwing_taper'', JStr (format_number (mainwing_taper a))),
     (''mainwing_twist'', JStr (format_number (mainwing_twist a))),
     (''mainwing_sweepback'', JStr (format_number (mainwing_sweepback a))),
     (''mainwing_dihedral'', JStr (format_number (mainwing_dihedral a))),
     (''mainwing_incidence'', JStr (format_number (mainwing_incidence a))),
     (''flap_start'', JList (map format_number (flap_start a))),
     (''flap_end'', JList (map format_number (flap_end a))),
     (''flap_angle'', JList (map format_number (flap_angle a))),
     (''flap_c_ratio'', JList (map format_number (flap_c_ratio a))),
     (''horizontal_volume_ratio'', JStr (format_number (horizontal_volume_ratio a))),
     (''horizontal_area_ratio'', JStr (format_number (horizontal_area_ratio a))),
     (''horizontal_AR'', JStr (format_number (horizontal_AR a))),
     (''horizontal_taper'', JStr (format_number (horizontal_taper a))),
     (''horizontal_ThickChord'', JStr (format_number (horizontal_ThickChord a))),
     (''vertical_volume_ratio'', JStr (format_number (vertical_volume_ratio a))),
     (''vertical_taper'', JStr (format_number (vertical_taper a))),
     (''vertical_ThickChord'', JStr (format_number (vertical_ThickChord a)))]"

text \<open>
  String escaping of the encoder with \<open>ensure_ascii=True\<close> (the default): the double
  quote, the backslash and five control characters have short escapes, every other character
  outside the printable ASCII range becomes \<open>\uXXXX\<close>.  Characters are code points below 256.
\<close>

definition hex_digit :: "nat \<Rightarrow> char" where
  "hex_digit d = ''0123456789abcdef'' ! d"

definition json_escape :: "char \<Rightarrow> string" where
  "json_escape c =
     (let n = (of_char c :: nat) in
      if n = 34 then [CHR 0x5C, CHR 0x22]
      else if n = 92 then [CHR 0x5C, CHR 0x5C]
      else if n = 8 then [CHR 0x5C, CHR ''b'']
      else if n = 12 then [CHR 0x5C, CHR ''f'']
      else if n = 10 then [CHR 0x5C, CHR ''n'']
      else if n = 13 then [CHR 0x5C, CHR ''r'']
      else if n = 9 then [CHR 0x5C, CHR ''t'']
      else if n < 32 \<or> 126 < n then
        [CHR 0x5C, CHR ''u'', CHR ''0'', CHR ''0'', hex_digit (n div 16), hex_digit (n mod 16)]
      else [c])"

definition json_string :: "string \<Rightarrow> string" where
  "json_string s = [CHR 0x22] @ concat (map json_escape s) @ [CHR 0x22]"

text \<open>\<open>sep.join(xs)\<close>\<close>

fun join :: "string \<Rightarrow> string list \<Rightarrow> string" where
  "join sep [] = []"
| "join sep [x] = x"
| "join sep (x # y # ys) = x @ sep @ join sep (y # ys)"

fun json_value :: "jvalue \<Rightarrow> string" where
  "json_value (JStr s) = json_string s"
| "json_value (JList xs) = ''['' @ join '', '' (map json_string xs) @ '']''"

definition json_item :: "string \<times> jvalue \<Rightarrow> string" where
  "json_item kv = json_string (fst kv) @ '': '' @ json_value (snd kv)"

text \<open>
  With \<open>sort_keys=True\<close> the encoder sorts the items by key (strings compare by code
  point, lexicographically) and joins them with the default separators.
\<close>

definition json_dumps :: "(string \<times> jvalue) list \<Rightarrow> string" where
  "json_dumps d = ''{'' @ join '', '' (map json_item (sort_key fst d)) @ ''}''"

section \<open>\<open>str.encode()\<close>: UTF-8\<close>

text \<open>Bytes are natural numbers below 256.\<close>

definition utf8_char :: "char \<Rightarrow> nat list" where
  "utf8_char c =
     (let n = (of_char c :: nat) in
      if n < 128 then [n] else [192 + n div 64, 128 + n mod 64])"

definition encode :: "string \<Rightarrow> nat list" where
  "encode s = concat (map utf8_char s)"

section \<open>\<open>hashlib.sha256\<close>\<close>

text \<open>
  SHA-256 as in FIPS 180-4, on 32-bit words kept as natural numbers with the reduction
  modulo \<open>2^32\<close> written out.
\<close>

definition rotr :: "nat \<Rightarrow> nat \<Rightarrow> nat" where
  "rotr n x = drop_bit n x + push_bit (32 - n) (take_bit n x)"

definition Ch :: "nat \<Rightarrow> nat \<Rightarrow> nat \<Rightarrow> nat" where
  "Ch x y z = (x AND y) XOR ((x XOR 4294967295) AND z)"

definition Maj :: "nat \<Rightarrow> nat \<Rightarrow> nat \<Rightarrow> nat" where
  "Maj x y z = (x AND y) XOR (x AND z) XOR (y AND z)"

definition bsig0 :: "nat \<Rightarrow> nat" where
  "bsig0 x = rotr 2 x XOR rotr 13 x XOR rotr 22 x"

definition bsig1 :: "nat \<Rightarrow> nat" where
  "bsig1 x = rotr 6 x XOR rotr 11 x XOR rotr 25 x"

definition ssig0 :: "nat \<Rightarrow> nat" where
  "ssig0 x = rotr 7 x XOR rotr 18 x XOR drop_bit 3 x"

definition ssig1 :: "nat \<Rightarrow> nat" where
  "ssig1 x = rotr 17 x XOR rotr 19 x XOR drop_bit 10 x"

text \<open>
  The round constants: the first 32 bits of the fractional parts of the cube roots of the
  first 64 primes, in decimal.
\<close>

definition K256 :: "nat list" where
  "K256 =
    [1116352408, 1899447441, 3049323471, 3921009573, 961987163, 1508970993,
     2453635748, 2870763221, 3624381080, 310598401, 607225278, 1426881987,
     1925078388, 2162078206, 2614888103, 3248222580, 3835390401, 4022224774,
     264347078, 604807628, 770255983, 1249150122, 1555081692, 1996064986,
     2554220882, 2821834349, 2952996808, 3210313671, 3336571891, 3584528711,
     113926993, 338241895, 666307205, 773529912, 1294757372, 1396182291,
     1695183700, 1986661051, 2177026350, 2456956037, 2730485921, 2820302411,
     3259730800, 3345764771, 3516065817, 3600352804, 4094571909, 275423344,
     430227734, 506948616, 659060556, 883997877, 958139571, 1322822218,
     1537002063, 1747873779, 1955562222, 2024104815, 2227730452, 2361852424,
     2428436474, 2756734187, 3204031479, 3329325298]"

type_synonym sha_state = "nat \<times> nat \<times> nat \<times> nat \<times> nat \<times> nat \<times> nat \<times> nat"

definition H0 :: sha_state where
  "H0 = (1779033703, 3144134277, 1013904242, 2773480762,
         1359893119, 2600822924, 528734635, 1541459225)"

fun shuffle :: "nat \<Rightarrow> nat \<Rightarrow> sha_state \<Rightarrow> sha_state" where
  "shuffle t1 t2 (a, b, c, d, e, f, g, h) =
     (take_bit 32 (t1 + t2), a, b, c, take_bit 32 (d + t1), e, f, g)"

fun round_step :: "nat \<Rightarrow> nat \<Rightarrow> sha_state \<Rightarrow> sha_state" where
  "round_step k w (a, b, c, d, e, f, g, h) =
     shuffle (take_bit 32 (h + bsig1 e + Ch e f g + k + w)) (take_bit 32 (bsig0 a + Maj a b c))
       (a, b, c, d, e, f, g, h)"

text \<open>
  The message schedule is kept as a window of the sixteen latest words: the head is the
  word of the current round, and the word sixteen rounds ahead is appended.
\<close>

definition next_w :: "nat list \<Rightarrow> nat" where
  "next_w ws = take_bit 32 (ssig1 (ws ! 14) + ws ! 9 + ssig0 (ws ! 1) + ws ! 0)"

fun rounds :: "nat list \<Rightarrow> nat list \<Rightarrow> sha_state \<Rightarrow> sha_state" where
  "rounds [] ws s = s"
| "rounds (k # ks) ws s = rounds ks (tl ws @ [next_w ws]) (round_step k (hd ws) s)"

fun add_state :: "sha_state \<Rightarrow> sha_state \<Rightarrow> sha_state" where
  "add_state (a, b, c, d, e, f, g, h) (a', b', c', d', e', f', g', h') =
     (take_bit 32 (a + a'), take_bit 32 (b + b'), take_bit 32 (c + c'), take_bit 32 (d + d'),
      take_bit 32 (e + e'), take_bit 32 (f + f'), take_bit 32 (g + g'), take_bit 32 (h + h'))"

definition compress :: "sha_state \<Rightarrow> nat list \<Rightarrow> sha_state" where
  "compress s ws = add_state s (rounds K256 ws s)"

text \<open>Big-endian: \<open>n\<close> bytes of a number, and a number from bytes.\<close>

fun be_bytes :: "nat \<Rightarrow> nat \<Rightarrow> nat list" where
  "be_bytes 0 x = []"
| "be_bytes (Suc n) x = be_bytes n (x div 256) @ [x mod 256]"

definition from_bytes_big :: "nat list \<Rightarrow> nat" where
  "from_bytes_big bs = foldl (\<lambda>acc b. acc * 256 + b) 0 bs"

fun be_words :: "nat list \<Rightarrow> nat list" where
  "be_words (b0 # b1 # b2 # b3 # bs) = from_bytes_big [b0, b1, b2, b3] # be_words bs"
| "be_words bs = []"

definition pad :: "nat list \<Rightarrow> nat list" where
  "pad m = m @ [0x80] @ replicate ((119 - length m mod 64) mod 64) 0 @ be_bytes 8 (8 * length m)"

function blocks :: "sha_state \<Rightarrow> nat list \<Rightarrow> sha_state" where
  "blocks s ws = (if ws = [] then s else blocks (compress s (take 16 ws)) (drop 16 ws))"
  by pat_completeness auto
termination
  by (relation "measure (\<lambda>(s, ws). length ws)") auto

declare blocks.simps [simp del]

fun state_bytes :: "sha_state \<Rightarrow> nat list" where
  "state_bytes (a, b, c, d, e, f, g, h) =
     be_bytes 4 a @ be_bytes 4 b @ be_bytes 4 c @ be_bytes 4 d @
     be_bytes 4 e @ be_bytes 4 f @ be_bytes 4 g @ be_bytes 4 h"

definition sha256 :: "nat list \<Rightarrow> nat list" where
  "sha256 m = state_bytes (blocks H0 (be_words (pad m)))"

section \<open>\<open>Aircraft.__hash__\<close>\<close>

definition canonical_bytes :: "(string \<times> jvalue) list \<Rightarrow> nat list" where
  "canonical_bytes d = encode (json_dumps d)"

text \<open>Lines 83 to 89, from the dict on.\<close>

definition hash_of_dict :: "(string \<times> jvalue) list \<Rightarrow> nat" where
  "hash_of_dict d = from_bytes_big (take 8 (sha256 (canonical_bytes d)))"

definition Aircraft_hash :: "aircraft \<Rightarrow> nat" where
  "Aircraft_hash a = hash_of_dict (hash_dict a)"

text \<open>
  The outcome of a call: the body of \<open>__hash__\<close> has no \<open>raise\<close>, and formatting,
  serialising and hashing are defined on every float and every string, so the call returns.
\<close>

definition fingerprint :: "aircraft \<Rightarrow> error + nat" where
  "fingerprint a = Inr (Aircraft_hash a)"

section \<open>Relations between aircraft\<close>

text \<open>\<open>==\<close> on floats: the two zeros are equal, a NaN equals nothing, itself included.\<close>

fun float_eq :: "pyfloat \<Rightarrow> pyfloat \<Rightarrow> bool" where
  "float_eq (Finite s m e) (Finite s' m' e') =
     (m = 0 \<and> m' = 0 \<or>
      s = s' \<and> m * 2 ^ nat (e - min e e') = m' * 2 ^ nat (e' - min e e'))"
| "float_eq (Infinity s) (Infinity s') = (s = s')"
| "float_eq x y = False"

text \<open>A relation on the elements, lifted to every field of two aircraft.\<close>

definition aircraft_rel ::
  "('s \<Rightarrow> 's \<Rightarrow> bool) \<Rightarrow> ('s, 's list) Aircraft \<Rightarrow> ('s, 's list) Aircraft \<Rightarrow> bool" where
  "aircraft_rel R a b =
    (R (m_total a) (m_total b) \<and> R (m_fuselage a) (m_fuselage b) \<and>
     R (wing_density a) (wing_density b) \<and> R (spar_density a) (spar_density b) \<and>
     R (mainwing_span a) (mainwing_span b) \<and> R (mainwing_AR a) (mainwing_AR b) \<and>
     R (mainwing_taper a) (mainwing_taper b) \<and> R (mainwing_twist a) (mainwing_twist b) \<and>
     R (mainwing_sweepback a) (mainwing_sweepback b) \<and>
     R (mainwing_dihedral a) (mainwing_dihedral b) \<and>
     R (mainwing_incidence a) (mainwing_incidence b) \<and>
     list_all2 R (flap_start a) (flap_start b) \<and> list_all2 R (flap_end a) (flap_end b) \<and>
     list_all2 R (flap_angle a) (flap_angle b) \<and>
     list_all2 R (flap_c_ratio a) (flap_c_ratio b) \<and>
     R (horizontal_volume_ratio a) (horizontal_volume_ratio b) \<and>
     R (horizontal_area_ratio a) (horizontal_area_ratio b) \<and>
     R (horizontal_AR a) (horizontal_AR b) \<and> R (horizontal_taper a) (horizontal_taper b) \<and>
     R (horizontal_ThickChord a) (horizontal_ThickChord b) \<and>
     R (vertical_volume_ratio a) (vertical_volume_ratio b) \<and>
     R (vertical_taper a) (vertical_taper b) \<and>
     R (vertical_ThickChord a) (vertical_ThickChord b))"

text \<open>
  The \<open>__eq__\<close> that the \<open>dataclass\<close> decorator generates compares the tuples of
  the fields.  The comparison of tuples and of lists takes two references to the same object
  as equal before it asks \<open>==\<close>, so it depends on which float objects the fields hold: a
  float object is kept as its address and its value, and an aircraft whose fields hold float
  objects has the values that \<open>__hash__\<close> reads.
\<close>

type_synonym float_obj = "nat \<times> pyfloat"

type_synonym aircraft_obj = "(float_obj, float_obj list) Aircraft"

definition obj_eq :: "float_obj \<Rightarrow> float_obj \<Rightarrow> bool" where
  "obj_eq p q = (fst p = fst q \<or> float_eq (snd p) (snd q))"

definition Aircraft_eq :: "aircraft_obj \<Rightarrow> aircraft_obj \<Rightarrow> bool" where
  "Aircraft_eq a b = aircraft_rel obj_eq a b"

definition float_values :: "aircraft_obj \<Rightarrow> aircraft" where
  "float_values a =
     \<lparr>m_total = snd (m_total a), m_fuselage = snd (m_fuselage a),
      wing_density = snd (wing_density a), spar_density = snd (spar_density a),
      mainwing_span = snd (mainwing_span a), mainwing_AR = snd (mainwing_AR a),
      mainwing_taper = snd (mainwing_taper a), mainwing_twist = snd (mainwing_twist a),
      mainwing_sweepback = snd (mainwing_sweepback a),
      mainwing_dihedral = snd (mainwing_dihedral a),
      mainwing_incidence = snd (mainwing_incidence a),
      flap_start = map snd (flap_start a), flap_end = map snd (flap_end a),
      flap_angle = map snd (flap_angle a), flap_c_ratio = map snd (flap_c_ratio a),
      horizontal_volume_ratio = snd (horizontal_volume_ratio a),
      horizontal_area_ratio = snd (horizontal_area_ratio a),
      horizontal_AR = snd (horizontal_AR a), horizontal_taper = snd (horizontal_taper a),
      horizontal_ThickChord = snd (horizontal_ThickChord a),
      vertical_volume_ratio = snd (vertical_volume_ratio a),
      vertical_taper = snd (vertical_taper a),
      vertical_ThickChord = snd (vertical_ThickChord a)\<rparr>"

text \<open>Every float of an aircraft, and whether all of them are finite.\<close>

definition aircraft_floats :: "aircraft \<Rightarrow> pyfloat list" where
  "aircraft_floats a =
    [m_total a, m_fuselage a, wing_density a, spar_density a, mainwing_span a, mainwing_AR a,
     mainwing_taper a, mainwing_twist a, mainwing_sweepback a, mainwing_dihedral a,
     mainwing_incidence a] @
    flap_start a @ flap_end a @ flap_angle a @ flap_c_ratio a @
    [horizontal_volume_ratio a, horizontal_area_ratio a, horizontal_AR a, horizontal_taper a,
     horizontal_ThickChord a, vertical_volume_ratio a, vertical_taper a, vertical_ThickChord a]"

definition all_finite :: "aircraft \<Rightarrow> bool" where
  "all_finite a = list_all isfinite (aircraft_floats a)"

text \<open>The strings that a value of the dict holds.\<close>

fun jvalue_strings :: "jvalue \<Rightarrow> string list" where
  "jvalue_strings (JStr s) = [s]"
| "jvalue_strings (JList ss) = ss"

text \<open>
  Two floats that agree in sign and in every digit up to the sixth decimal place
  (they differ only beyond it): the magnitudes times \<open>10^6\<close> have the same integer part.
\<close>

definition trunc6 :: "nat \<Rightarrow> int \<Rightarrow> nat" where
  "trunc6 m e =
     (if 0 \<le> e then m * 2 ^ nat e * 10 ^ 6 else (m * 10 ^ 6) div 2 ^ nat (- e))"

fun agree_to_6dp :: "pyfloat \<Rightarrow> pyfloat \<Rightarrow> bool" where
  "agree_to_6dp (Finite s m e) (Finite s' m' e') = (s = s' \<and> trunc6 m e = trunc6 m' e')"
| "agree_to_6dp (Infinity s) (Infinity s') = (s = s')"
| "agree_to_6dp NaN NaN = True"
| "agree_to_6dp x y = False"

text \<open>Two floats with the same sign bit and the same rounding to six decimal places.\<close>

fun same_rounding :: "pyfloat \<Rightarrow> pyfloat \<Rightarrow> bool" where
  "same_rounding (Finite s m e) (Finite s' m' e') = (s = s' \<and> scaled6 m e = scaled6 m' e')"
| "same_rounding (Infinity s) (Infinity s') = (s = s')"
| "same_rounding NaN NaN = True"
| "same_rounding x y = False"

section \<open>Sample aircraft\<close>

text \<open>
  An aircraft with no flap segment and every scalar field \<open>0.0\<close>, but for
  \<open>wing_density\<close>, whose key comes last in the sorted serialization.
\<close>

definition zero_f :: pyfloat where
  "zero_f = Finite False 0 0"

definition base_aircraft :: "pyfloat \<Rightarrow> aircraft" where
  "base_aircraft x =
     \<lparr>m_total = zero_f, m_fuselage = zero_f, wing_density = x, spar_density = zero_f,
      mainwing_span = zero_f, mainwing_AR = zero_f, mainwing_taper = zero_f,
      mainwing_twist = zero_f, mainwing_sweepback = zero_f, mainwing_dihedral = zero_f,
      mainwing_incidence = zero_f,
      flap_start = [], flap_end = [], flap_angle = [], flap_c_ratio = [],
      horizontal_volume_ratio = zero_f, horizontal_area_ratio = zero_f, horizontal_AR = zero_f,
      horizontal_taper = zero_f, horizontal_ThickChord = zero_f,
      vertical_volume_ratio = zero_f, vertical_taper = zero_f, vertical_ThickChord = zero_f\<rparr>"

text \<open>
  The same aircraft as objects: its nineteen scalar fields hold nineteen float objects, at
  the addresses from \<open>p\<close> on.
\<close>

definition base_objects :: "nat \<Rightarrow> pyfloat \<Rightarrow> aircraft_obj" where
  "base_objects p x =
     \<lparr>m_total = (p, zero_f), m_fuselage = (p + 1, zero_f), wing_density = (p + 2, x),
      spar_density = (p + 3, zero_f), mainwing_span = (p + 4, zero_f),
      mainwing_AR = (p + 5, zero_f), mainwing_taper = (p + 6, zero_f),
      mainwing_twist = (p + 7, zero_f), mainwing_sweepback = (p + 8, zero_f),
      mainwing_dihedral = (p + 9, zero_f), mainwing_incidence = (p + 10, zero_f),
      flap_start = [], flap_end = [], flap_angle = [], flap_c_ratio = [],
      horizontal_volume_ratio = (p + 11, zero_f), horizontal_area_ratio = (p + 12, zero_f),
      horizontal_AR = (p + 13, zero_f), horizontal_taper = (p + 14, zero_f),
      horizontal_ThickChord = (p + 15, zero_f), vertical_volume_ratio = (p + 16, zero_f),
      vertical_taper = (p + 17, zero_f), vertical_ThickChord = (p + 18, zero_f)\<rparr>"

text \<open>Doubles used as inputs below, with the decimal literal that denotes each.\<close>

definition neg_zero :: pyfloat where
  "neg_zero = Finite True 0 0"


text \<open>\<open>0.0078124\<close> and \<open>0.0078126\<close>\<close>

definition x_lo :: pyfloat where
  "x_lo = Finite False 9007083962590531 (- 60)"

definition x_hi :: pyfloat where
  "x_hi = Finite False 2251828636722863 (- 58)"

text \<open>\<open>2.0\<close> and \<open>2.0000001\<close>\<close>

definition two :: pyfloat where
  "two = Finite False 1 1"

definition two_eps :: pyfloat where
  "two_eps = Finite False 4503599852550477 (- 51)"

text \<open>
  The serialization of \<open>base_aircraft x\<close> starts with the same 659 bytes for every
  \<open>x\<close>: the text up to and including the key \<open>wing_density\<close>, its colon and a
  space.  \<open>base_prefix\<close> is the first 640 of them (ten blocks of SHA-256),
  \<open>base_rest\<close> the other 19, and \<open>mid_state\<close> the chaining value after the ten blocks.
\<close>

definition base_prefix :: "nat list" where
  "base_prefix =
    [123, 34, 102, 108, 97, 112, 95, 97, 110, 103, 108, 101,
     34, 58, 32, 91, 93, 44, 32, 34, 102, 108, 97, 112,
     95, 99, 95, 114, 97, 116, 105, 111, 34, 58, 32, 91,
     93, 44, 32, 34, 102, 108, 97, 112, 95, 101, 110, 100,
     34, 58, 32, 91, 93, 44, 32, 34, 102, 108, 97, 112,
     95, 115, 116, 97, 114, 116, 34, 58, 32, 91, 93, 44,
     32, 34, 104, 111, 114, 105, 122, 111, 110, 116, 97, 108,
     95, 65, 82, 34, 58, 32, 34, 48, 46, 48, 48, 48,
     48, 48, 48, 34, 44, 32, 34, 104, 111, 114, 105, 122,
     111, 110, 116, 97, 108, 95, 84, 104, 105, 99, 107, 67,
     104, 111, 114, 100, 34, 58, 32, 34, 48, 46, 48, 48,
     48, 48, 48, 48, 34, 44, 32, 34, 104, 111, 114, 105,
     122, 111, 110, 116, 97, 108, 95, 97, 114, 101, 97, 95,
     114, 97, 116, 105, 111, 34, 58, 32, 34, 48, 46, 48,
     48, 48, 48, 48, 48, 34, 44, 32, 34, 104, 111, 114,
     105, 122, 111, 110, 116, 97, 108, 95, 116, 97, 112, 101,
     114, 34, 58, 32, 34, 48, 46, 48, 48, 48, 48, 48,
     48, 34, 44, 32, 34, 104, 111, 114, 105, 122, 111, 110,
     116, 97, 108, 95, 118, 111, 108, 117, 109, 101, 95, 114,
     97, 116, 105, 111, 34, 58, 32, 34, 48, 46, 48, 48,
     48, 48, 48, 48, 34, 44, 32, 34, 109, 95, 102, 117,
     115, 101, 108, 97, 103, 101, 34, 58, 32, 34, 48, 46,
     48, 48, 48, 48, 48, 48, 34, 44, 32, 34, 109, 95,
     116, 111, 116, 97, 108, 34, 58, 32, 34, 48, 46, 48,
     48, 48, 48, 48, 48, 34, 44, 32, 34, 109, 97, 105,
     110, 119, 105, 110, 103, 95, 65, 82, 34, 58, 32, 34,
     48, 46, 48, 48, 48, 48, 48, 48, 34, 44, 32, 34,
     109, 97, 105, 110, 119, 105, 110, 103, 95, 100, 105, 104,
     101, 100, 114, 97, 108, 34, 58, 32, 34, 48, 46, 48,
     48, 48, 48, 48, 48, 34, 44, 32, 34, 109, 97, 105,
     110, 119, 105, 110, 103, 95, 105, 110, 99, 105, 100, 101,
     110, 99, 101, 34, 58, 32, 34, 48, 46, 48, 48, 48,
     48, 48, 48, 34, 44, 32, 34, 109, 97, 105, 110, 119,
     105, 110, 103, 95, 115, 112, 97, 110, 34, 58, 32, 34,
     48, 46, 48, 48, 48, 48, 48, 48, 34, 44, 32, 34,
     109, 97, 105, 110, 119, 105, 110, 103, 95, 115, 119, 101,
     101, 112, 98, 97, 99, 107, 34, 58, 32, 34, 48, 46,
     48, 48, 48, 48, 48, 48, 34, 44, 32, 34, 109, 97,
     105, 110, 119, 105, 110, 103, 95, 116, 97, 112, 101, 114,
     34, 58, 32, 34, 48, 46, 48, 48, 48, 48, 48, 48,
     34, 44, 32, 34, 109, 97, 105, 110, 119, 105, 110, 103,
     95, 116, 119, 105, 115, 116, 34, 58, 32, 34, 48, 46,
     48, 48, 48, 48, 48, 48, 34, 44, 32, 34, 115, 112,
     97, 114, 95, 100, 101, 110, 115, 105, 116, 121, 34, 58,
     32, 34, 48, 46, 48, 48, 48, 48, 48, 48, 34, 44,
     32, 34, 118, 101, 114, 116, 105, 99, 97, 108, 95, 84,
     104, 105, 99, 107, 67, 104, 111, 114, 100, 34, 58, 32,
     34, 48, 46, 48, 48, 48, 48, 48, 48, 34, 44, 32,
     34, 118, 101, 114, 116, 105, 99, 97, 108, 95, 116, 97,
     112, 101, 114, 34, 58, 32, 34, 48, 46, 48, 48, 48,
     48, 48, 48, 34, 44, 32, 34, 118, 101, 114, 116, 105,
     99, 97, 108, 95, 118, 111, 108, 117, 109, 101, 95, 114,
     97, 116, 105, 111, 34, 58, 32, 34, 48, 46, 48, 48,
     48, 48, 48, 48]"

definition base_rest :: "nat list" where
  "base_rest = [34, 44, 32, 34, 119, 105, 110, 103, 95, 100, 101, 110,
     115, 105, 116, 121, 34, 58, 32]"

definition mid_state :: sha_state where
  "mid_state = (1092240105, 771921780, 2869036253, 2756244643,
                1941427586, 2461088760, 672067917, 3605642350)"

section \<open>\<open>AircraftAnalysisResults\<close> and \<open>fromDict\<close>\<close>

text \<open>
  The result record holds a reference to its aircraft (\<open>'a\<close>) and values of whatever
  type the caller passes (\<open>'v\<close>: floats, lists, arrays).
\<close>

record ('v, 'a) AircraftAnalysisResults =
  aircraft :: 'a
  m_boom :: 'v
  m_wing :: 'v
  m_fuel :: 'v
  Lw :: 'v
  Lh :: 'v
  span :: 'v
  AR :: 'v
  taper :: 'v
  twist :: 'v
  Sref :: 'v
  alpha_list :: 'v
  AOA_stall :: 'v
  AOA_takeoff_max :: 'v
  AOA_climb_max :: 'v
  AOA_turn_max :: 'v
  CL :: 'v
  CL_max :: 'v
  CD_wing :: 'v
  CD_fuse :: 'v
  CD_total :: 'v
  CL_flap_max :: 'v
  CL_flap_zero :: 'v
  CD_flap_max :: 'v
  CD_flap_zero :: 'v

text \<open>\<open>sub in s\<close> and \<open>s.replace(sub, '')\<close> on strings.\<close>

fun contains :: "string \<Rightarrow> string \<Rightarrow> bool" where
  "contains sub [] = (sub = [])"
| "contains sub (c # cs) = (prefix sub (c # cs) \<or> contains sub cs)"

function remove_all :: "string \<Rightarrow> string \<Rightarrow> string" where
  "remove_all sub s =
     (if s = [] then []
      else if sub \<noteq> [] \<and> prefix sub s then remove_all sub (drop (length sub) s)
      else hd s # remove_all sub (tl s))"
  by pat_completeness auto
termination
  by (relation "measure (\<lambda>(sub, s). length s)") auto

declare remove_all.simps [simp del]

text \<open>
  A dict is the list of its items in insertion order, with distinct keys.  The two
  comprehensions of \<open>fromDict\<close> (lines 138 and 139): a later item with a key
  already present replaces the value and keeps the place of the first.
\<close>

definition aircraft_kwargs :: "(string \<times> 'v) list \<Rightarrow> (string \<times> 'v) list" where
  "aircraft_kwargs d =
     fold (\<lambda>kv acc. AList.update (remove_all ''aircraft.'' (fst kv)) (snd kv) acc)
       (filter (\<lambda>kv. contains ''aircraft.'' (fst kv)) d) []"

definition result_kwargs :: "(string \<times> 'v) list \<Rightarrow> (string \<times> 'v) list" where
  "result_kwargs d = filter (\<lambda>kv. \<not> contains ''aircraft.'' (fst kv)) d"

text \<open>
  The generated \<open>__init__\<close> of a dataclass without defaults, called with keyword
  arguments only: a \<open>TypeError\<close> for a keyword that is no field and for a field without
  a keyword.
\<close>

definition Aircraft_field_names :: "string list" where
  "Aircraft_field_names =
    [''m_total'', ''m_fuselage'', ''wing_density'', ''spar_density'', ''mainwing_span'',
     ''mainwing_AR'', ''mainwing_taper'', ''mainwing_twist'', ''mainwing_sweepback'',
     ''mainwing_dihedral'', ''mainwing_incidence'', ''flap_start'', ''flap_end'',
     ''flap_angle'', ''flap_c_ratio'', ''horizontal_volume_ratio'',
     ''horizontal_area_ratio'', ''horizontal_AR'', ''horizontal_taper'',
     ''horizontal_ThickChord'', ''vertical_volume_ratio'', ''vertical_taper'',
     ''vertical_ThickChord'']"

definition Results_field_names :: "string list" where
  "Results_field_names =
    [''m_boom'', ''m_wing'', ''m_fuel'', ''Lw'', ''Lh'', ''span'', ''AR'', ''taper'',
     ''twist'', ''Sref'', ''alpha_list'', ''AOA_stall'', ''AOA_takeoff_max'',
     ''AOA_climb_max'', ''AOA_turn_max'', ''CL'', ''CL_max'', ''CD_wing'', ''CD_fuse'',
     ''CD_total'', ''CL_flap_max'', ''CL_flap_zero'', ''CD_flap_max'', ''CD_flap_zero'']"

definition keywords_match :: "string list \<Rightarrow> (string \<times> 'v) list \<Rightarrow> bool" where
  "keywords_match names kw =
     (list_all (\<lambda>k. k \<in> set names) (map fst kw) \<and>
      list_all (\<lambda>f. f \<in> set (map fst kw)) names)"

definition Aircraft_init :: "(string \<times> 'v) list \<Rightarrow> error + ('v, 'v) Aircraft" where
  "Aircraft_init kw =
     (if keywords_match Aircraft_field_names kw then
        Inr \<lparr>m_total = the (map_of kw ''m_total''),
             m_fuselage = the (map_of kw ''m_fuselage''),
             wing_density = the (map_of kw ''wing_density''),
             spar_density = the (map_of kw ''spar_density''),
             mainwing_span = the (map_of kw ''mainwing_span''),
             mainwing_AR = the (map_of kw ''mainwing_AR''),
             mainwing_taper = the (map_of kw ''mainwing_taper''),
             mainwing_twist = the (map_of kw ''mainwing_twist''),
             mainwing_sweepback = the (map_of kw ''mainwing_sweepback''),
             mainwing_dihedral = the (map_of kw ''mainwing_dihedral''),
             mainwing_incidence = the (map_of kw ''mainwing_incidence''),
             flap_start = the (map_of kw ''flap_start''),
             flap_end = the (map_of kw ''flap_end''),
             flap_angle = the (map_of kw ''flap_angle''),
             flap_c_ratio = the (map_of kw ''flap_c_ratio''),
             horizontal_volume_ratio = the (map_of kw ''horizontal_volume_ratio''),
             horizontal_area_ratio = the (map_of kw ''horizontal_area_ratio''),
             horizontal_AR = the (map_of kw ''horizontal_AR''),
             horizontal_taper = the (map_of kw ''horizontal_taper''),
             horizontal_ThickChord = the (map_of kw ''horizontal_ThickChord''),
             vertical_volume_ratio = the (map_of kw ''vertical_volume_ratio''),
             vertical_taper = the (map_of kw ''vertical_taper''),
             vertical_ThickChord = the (map_of kw ''vertical_ThickChord'')\<rparr>
      else Inl TypeError)"

text \<open>
  \<open>cls(**datadict, aircraft=aircraft)\<close>: a key \<open>aircraft\<close> in \<open>datadict\<close> is a
  keyword given twice, a \<open>TypeError\<close> as well.
\<close>

definition Results_init ::
  "(string \<times> 'v) list \<Rightarrow> 'a \<Rightarrow> error + ('v, 'a) AircraftAnalysisResults" where
  "Results_init kw ac =
     (if keywords_match Results_field_names kw then
        Inr \<lparr>aircraft = ac,
             m_boom = the (map_of kw ''m_boom''), m_wing = the (map_of kw ''m_wing''),
             m_fuel = the (map_of kw ''m_fuel''), Lw = the (map_of kw ''Lw''),
             Lh = the (map_of kw ''Lh''), span = the (map_of kw ''span''),
             AR = the (map_of kw ''AR''), taper = the (map_of kw ''taper''),
             twist = the (map_of kw ''twist''), Sref = the (map_of kw ''Sref''),
             alpha_list = the (map_of kw ''alpha_list''),
             AOA_stall = the (map_of kw ''AOA_stall''),
             AOA_takeoff_max = the (map_of kw ''AOA_takeoff_max''),
             AOA_climb_max = the (map_of kw ''AOA_climb_max''),
             AOA_turn_max = the (map_of kw ''AOA_turn_max''), CL = the (map_of kw ''CL''),
             CL_max = the (map_of kw ''CL_max''), CD_wing = the (map_of kw ''CD_wing''),
             CD_fuse = the (map_of kw ''CD_fuse''), CD_total = the (map_of kw ''CD_total''),
             CL_flap_max = the (map_of kw ''CL_flap_max''),
             CL_flap_zero = the (map_of kw ''CL_flap_zero''),
             CD_flap_max = the (map_of kw ''CD_flap_max''),
             CD_flap_zero = the (map_of kw ''CD_flap_zero'')\<rparr>
      else Inl TypeError)"

definition fromDict ::
  "(string \<times> 'v) list \<Rightarrow> error + ('v, ('v, 'v) Aircraft) AircraftAnalysisResults" where
  "fromDict datadict =
     (case Aircraft_init (aircraft_kwargs datadict) of
        Inl e \<Rightarrow> Inl e
      | Inr ac \<Rightarrow> Results_init (result_kwargs datadict) ac)"

text \<open>
  Modelled from the spec: the flattening of a result into one mapping, which models.py does
  not contain.  The fields of the result keep their names, the fields of the nested aircraft
  get the prefix \<open>aircraft.\<close>
\<close>

definition Aircraft_items :: "('v, 'v) Aircraft \<Rightarrow> (string \<times> 'v) list" where
  "Aircraft_items a =
    [(''m_total'', m_total a), (''m_fuselage'', m_fuselage a),
     (''wing_density'', wing_density a), (''spar_density'', spar_density a),
     (''mainwing_span'', mainwing_span a), (''mainwing_AR'', mainwing_AR a),
     (''mainwing_taper'', mainwing_taper a), (''mainwing_twist'', mainwing_twist a),
     (''mainwing_sweepback'', mainwing_sweepback a),
     (''mainwing_dihedral'', mainwing_dihedral a),
     (''mainwing_incidence'', mainwing_incidence a), (''flap_start'', flap_start a),
     (''flap_end'', flap_end a), (''flap_angle'', flap_angle a),
     (''flap_c_ratio'', flap_c_ratio a),
     (''horizontal_volume_ratio'', horizontal_volume_ratio a),
     (''horizontal_area_ratio'', horizontal_area_ratio a),
     (''horizontal_AR'', horizontal_AR a), (''horizontal_taper'', horizontal_taper a),
     (''horizontal_ThickChord'', horizontal_ThickChord a),
     (''vertical_volume_ratio'', vertical_volume_ratio a),
     (''vertical_taper'', vertical_taper a),
     (''vertical_ThickChord'', vertical_ThickChord a)]"

definition Results_items :: "('v, 'a) AircraftAnalysisResults \<Rightarrow> (string \<times> 'v) list" where
  "Results_items r =
    [(''m_boom'', m_boom r), (''m_wing'', m_wing r), (''m_fuel'', m_fuel r), (''Lw'', Lw r),
     (''Lh'', Lh r), (''span'', span r), (''AR'', AR r), (''taper'', taper r),
     (''twist'', twist r), (''Sref'', Sref r), (''alpha_list'', alpha_list r),
     (''AOA_stall'', AOA_stall r), (''AOA_takeoff_max'', AOA_takeoff_max r),
     (''AOA_climb_max'', AOA_climb_max r), (''AOA_turn_max'', AOA_turn_max r),
     (''CL'', CL r), (''CL_max'', CL_max r), (''CD_wing'', CD_wing r),
     (''CD_fuse'', CD_fuse r), (''CD_total'', CD_total r), (''CL_flap_max'', CL_flap_max r),
     (''CL_flap_zero'', CL_flap_zero r), (''CD_flap_max'', CD_flap_max r),
     (''CD_flap_zero'', CD_flap_zero r)]"

definition flatten ::
  "('v, ('v, 'v) Aircraft) AircraftAnalysisResults \<Rightarrow> (string \<times> 'v) list" where
  "flatten r =
     Results_items r @ map (\<lambda>kv. (''aircraft.'' @ fst kv, snd kv)) (Aircraft_items (aircraft r))"

text \<open>
  The partition as the specification words it: by the prefix, which is stripped.
\<close>

definition spec_aircraft_kwargs :: "(string \<times> 'v) list \<Rightarrow> (string \<times> 'v) list" where
  "spec_aircraft_kwargs d =
     map (\<lambda>kv. (drop 9 (fst kv), snd kv)) (filter (\<lambda>kv. prefix ''aircraft.'' (fst kv)) d)"

definition spec_result_kwargs :: "(string \<times> 'v) list \<Rightarrow> (string \<times> 'v) list" where
  "spec_result_kwargs d = filter (\<lambda>kv. \<not> prefix ''aircraft.'' (fst kv)) d"

definition fromFlatMapping_spec ::
  "(string \<times> 'v) list \<Rightarrow> error + ('v, ('v, 'v) Aircraft) AircraftAnalysisResults" where
  "fromFlatMapping_spec d =
     (case Aircraft_init (spec_aircraft_kwargs d) of
        Inl e \<Rightarrow> Inl e
      | Inr ac \<Rightarrow> Results_init (spec_result_kwargs d) ac)"

text \<open>
  The keys in which \<open>aircraft.\<close> occurs only as the prefix, and only once.
\<close>

definition prefix_only_key :: "string \<Rightarrow> bool" where
  "prefix_only_key k =
     (\<not> contains ''aircraft.'' k \<or>
      prefix ''aircraft.'' k \<and> \<not> contains ''aircraft.'' (drop 9 k))"

text \<open>A result over numbers, and a flat mapping with a key that hides the marker inside.\<close>

definition sample_aircraft :: "(nat, nat) Aircraft" where
  "sample_aircraft =
     \<lparr>m_total = 5, m_fuselage = 0, wing_density = 0, spar_density = 0, mainwing_span = 0,
      mainwing_AR = 0, mainwing_taper = 0, mainwing_twist = 0, mainwing_sweepback = 0,
      mainwing_dihedral = 0, mainwing_incidence = 0, flap_start = 0, flap_end = 0,
      flap_angle = 0, flap_c_ratio = 0, horizontal_volume_ratio = 0,
      horizontal_area_ratio = 0, horizontal_AR = 0, horizontal_taper = 0,
      horizontal_ThickChord = 0, vertical_volume_ratio = 0, vertical_taper = 0,
      vertical_ThickChord = 0\<rparr>"

definition sample_result :: "(nat, (nat, nat) Aircraft) AircraftAnalysisResults" where
  "sample_result =
     \<lparr>aircraft = sample_aircraft,
      m_boom = 0, m_wing = 0, m_fuel = 0, Lw = 0, Lh = 0, span = 0, AR = 0, taper = 0,
      twist = 0, Sref = 0, alpha_list = 0, AOA_stall = 0, AOA_takeoff_max = 0,
      AOA_climb_max = 0, AOA_turn_max = 0, CL = 0, CL_max = 0, CD_wing = 0, CD_fuse = 0,
      CD_total = 0, CL_flap_max = 0, CL_flap_zero = 0, CD_flap_max = 0, CD_flap_zero = 0\<rparr>"

definition odd_flat :: "(string \<times> nat) list" where
  "odd_flat =
     Results_items sample_result @ (''m_aircraft.total'', 5) #
     map (\<lambda>kv. (''aircraft.'' @ fst kv, snd kv)) (tl (Aircraft_items sample_aircraft))"

text \<open>
  Two aircraft whose \<open>flap_start\<close> lists hold \<open>2.0\<close> and \<open>2.0000001\<close> in
  the two orders.
\<close>

definition flaps_ab :: aircraft where
  "flaps_ab = (base_aircraft zero_f)\<lparr>flap_start := [two, two_eps]\<rparr>"

definition flaps_ba :: aircraft where
  "flaps_ba = (base_aircraft zero_f)\<lparr>flap_start := [two_eps, two]\<rparr>"

section \<open>The fingerprint as the specification words it\<close>








section \<open>Properties\<close>

subsection \<open>The digest and the range of the hash\<close>

lemma be_bytes_length: "length (be_bytes n x) = n"
  by (induction n arbitrary: x) auto

lemma be_bytes_lt: "b \<in> set (be_bytes n x) \<Longrightarrow> b < 256"
  by (induction n arbitrary: x) auto

lemma state_bytes_length: "length (state_bytes s) = 32"
  by (cases s) (auto simp: be_bytes_length)

lemma state_bytes_lt: "b \<in> set (state_bytes s) \<Longrightarrow> b < 256"
  by (cases s) (auto dest: be_bytes_lt)

lemma sha256_length: "length (sha256 m) = 32"
  by (simp add: sha256_def state_bytes_length)

lemma sha256_lt: "b \<in> set (sha256 m) \<Longrightarrow> b < 256"
  by (simp add: sha256_def state_bytes_lt)

lemma foldl_bytes_bound:
  "\<forall>b \<in> set bs. b < 256 \<Longrightarrow> acc < 256 ^ k \<Longrightarrow>
   foldl (\<lambda>acc b. acc * 256 + b) (acc :: nat) bs < 256 ^ (k + length bs)"
proof (induction bs arbitrary: acc k)
  case Nil
  then show ?case by simp
next
  case (Cons b bs)
  have "b < 256" using Cons.prems(1) by simp
  have "acc + 1 \<le> 256 ^ k" using Cons.prems(2) by simp
  then have "(acc + 1) * 256 \<le> 256 ^ k * 256" by (rule mult_le_mono1)
  then have "acc * 256 + b < 256 ^ Suc k" using \<open>b < 256\<close> by simp
  from Cons.IH [OF _ this] Cons.prems(1) show ?case by simp
qed

lemma from_bytes_big_bound:
  "\<forall>b \<in> set bs. b < 256 \<Longrightarrow> from_bytes_big bs < 256 ^ length bs"
  using foldl_bytes_bound [of bs 0 0] by (simp add: from_bytes_big_def)

lemma hash_of_dict_bound: "hash_of_dict d < 2 ^ 64"
proof -
  let ?bs = "take 8 (sha256 (canonical_bytes d))"
  have len: "length ?bs = 8" by (simp add: sha256_length)
  have "\<forall>b \<in> set ?bs. b < 256" by (auto dest: in_set_takeD sha256_lt)
  then have "from_bytes_big ?bs < 256 ^ length ?bs" by (rule from_bytes_big_bound)
  then have "from_bytes_big ?bs < 256 ^ 8" by (simp only: len)
  then show ?thesis by (simp add: hash_of_dict_def)
qed

text \<open>
  C10: \<open>__hash__\<close> returns on every aircraft whose fields hold floats, whatever the
  lengths of the four flap lists and also when fields are NaN or infinite; the value is below
  \<open>2^64\<close>, being read from exactly eight bytes of the digest.
\<close>

theorem hash_total_and_in_range:
  "fingerprint a = Inr (Aircraft_hash a) \<and> Aircraft_hash a < 2 ^ 64 \<and>
   length (take 8 (sha256 (canonical_bytes (hash_dict a)))) = 8"
  using hash_of_dict_bound [of "hash_dict a"]
  by (simp add: fingerprint_def Aircraft_hash_def sha256_length)


subsection \<open>Evaluating the hash of a sample aircraft\<close>

lemma digits_fixed_6:
  "digits_fixed 6 n =
     [digit_char (n div 10 div 10 div 10 div 10 div 10 mod 10),
      digit_char (n div 10 div 10 div 10 div 10 mod 10),
      digit_char (n div 10 div 10 div 10 mod 10), digit_char (n div 10 div 10 mod 10),
      digit_char (n div 10 mod 10), digit_char (n mod 10)]"
proof -
  have six: "6 = Suc (Suc (Suc (Suc (Suc (Suc 0)))))" by simp
  show ?thesis unfolding six by (simp only: digits_fixed.simps append.simps)
qed
lemmas fmt_eval = fixed6_def scaled6_def digits_fixed_6 dec.simps digit_char_def round_half_even_div_def

lemma sorted_hash_dict:
  "sort_key fst (hash_dict a) =
    [(''flap_angle'', JList (map format_number (flap_angle a))),
     (''flap_c_ratio'', JList (map format_number (flap_c_ratio a))),
     (''flap_end'', JList (map format_number (flap_end a))),
     (''flap_start'', JList (map format_number (flap_start a))),
     (''horizontal_AR'', JStr (format_number (horizontal_AR a))),
     (''horizontal_ThickChord'', JStr (format_number (horizontal_ThickChord a))),
     (''horizontal_area_ratio'', JStr (format_number (horizontal_area_ratio a))),
     (''horizontal_taper'', JStr (format_number (horizontal_taper a))),
     (''horizontal_volume_ratio'', JStr (format_number (horizontal_volume_ratio a))),
     (''m_fuselage'', JStr (format_number (m_fuselage a))),
     (''m_total'', JStr (format_number (m_total a))),
     (''mainwing_AR'', JStr (format_number (mainwing_AR a))),
     (''mainwing_dihedral'', JStr (format_number (mainwing_dihedral a))),
     (''mainwing_incidence'', JStr (format_number (mainwing_incidence a))),
     (''mainwing_span'', JStr (format_number (mainwing_span a))),
     (''mainwing_sweepback'', JStr (format_number (mainwing_sweepback a))),
     (''mainwing_taper'', JStr (format_number (mainwing_taper a))),
     (''mainwing_twist'', JStr (format_number (mainwing_twist a))),
     (''spar_density'', JStr (format_number (spar_density a))),
     (''vertical_ThickChord'', JStr (format_number (vertical_ThickChord a))),
     (''vertical_taper'', JStr (format_number (vertical_taper a))),
     (''vertical_volume_ratio'', JStr (format_number (vertical_volume_ratio a))),
     (''wing_density'', JStr (format_number (wing_density a)))]"
  by (simp add: hash_dict_def)

lemma encode_append: "encode (xs @ ys) = encode xs @ encode ys"
  by (simp add: encode_def)

lemma format_zero: "format_number zero_f = ''0.000000''"
  by (simp add: zero_f_def fmt_eval)

lemma canonical_base:
  "canonical_bytes (hash_dict (base_aircraft x)) =
     base_prefix @ base_rest @ encode (json_string (format_number x)) @ [125]"
  by (simp add: canonical_bytes_def json_dumps_def sorted_hash_dict base_aircraft_def format_zero
       json_item_def json_string_def json_escape_def encode_def utf8_char_def
       base_prefix_def base_rest_def)

lemma rotr_evals:
  "rotr 2 x = drop_bit 2 x + push_bit 30 (take_bit 2 x)"
  "rotr 13 x = drop_bit 13 x + push_bit 19 (take_bit 13 x)"
  "rotr 22 x = drop_bit 22 x + push_bit 10 (take_bit 22 x)"
  "rotr 6 x = drop_bit 6 x + push_bit 26 (take_bit 6 x)"
  "rotr 11 x = drop_bit 11 x + push_bit 21 (take_bit 11 x)"
  "rotr 25 x = drop_bit 25 x + push_bit 7 (take_bit 25 x)"
  "rotr 7 x = drop_bit 7 x + push_bit 25 (take_bit 7 x)"
  "rotr 18 x = drop_bit 18 x + push_bit 14 (take_bit 18 x)"
  "rotr 17 x = drop_bit 17 x + push_bit 15 (take_bit 17 x)"
  "rotr 19 x = drop_bit 19 x + push_bit 13 (take_bit 19 x)"
  by (simp_all add: rotr_def)

lemma next_w_eval:
  "next_w [w0, w1, w2, w3, w4, w5, w6, w7, w8, w9, w10, w11, w12, w13, w14, w15] =
     take_bit 32 (ssig1 w14 + w9 + ssig0 w1 + w0)"
  by (simp add: next_w_def)

lemma rounds_eval:
  "rounds (k # ks) [w0, w1, w2, w3, w4, w5, w6, w7, w8, w9, w10, w11, w12, w13, w14, w15] s =
     rounds ks [w1, w2, w3, w4, w5, w6, w7, w8, w9, w10, w11, w12, w13, w14, w15,
                take_bit 32 (ssig1 w14 + w9 + ssig0 w1 + w0)] (round_step k w0 s)"
  by (simp add: next_w_def)

lemma shift_zero_evals:
  "push_bit 0 (x :: nat) = x" "drop_bit 0 (x :: nat) = x"
  "0 XOR (x :: nat) = x" "(x :: nat) XOR 0 = x" "0 AND (x :: nat) = 0" "(x :: nat) AND 0 = 0"
  by simp_all

lemma drop_bit_One_eval: "drop_bit (numeral l) (numeral num.One :: nat) = 0"
  unfolding numeral_One drop_bit_of_1 by simp

lemmas sha_eval = shift_zero_evals drop_bit_One_eval
  rotr_evals rounds_eval rounds.simps(1) round_step.simps shuffle.simps add_state.simps
  bsig0_def bsig1_def ssig0_def ssig1_def Ch_def Maj_def
  numeral_plus_numeral add_num_simps add_0_left add_0_right
  numeral_xor_num xor_num.simps numeral_and_num and_num.simps option.case option.map
  take_bit_numeral_numeral take_bit_num_simps pred_numeral_simps BitM.simps
  drop_bit_numeral_bit0 drop_bit_numeral_bit1 push_bit_numeral
  take_bit_of_0 drop_bit_of_0 push_bit_of_0 take_bit_0




lemma blocks_Nil: "blocks s [] = s"
  by (simp add: blocks.simps)

lemma blocks_16:
  "blocks s (w0 # w1 # w2 # w3 # w4 # w5 # w6 # w7 # w8 # w9 # w10 # w11 # w12 # w13 # w14 #
             w15 # rest) =
   blocks (compress s [w0, w1, w2, w3, w4, w5, w6, w7, w8, w9, w10, w11, w12, w13, w14, w15])
     rest"
  by (subst blocks.simps) simp

lemma be_words_append:
  "length A mod 4 = 0 \<Longrightarrow> be_words (A @ B) = be_words A @ be_words B"
  by (induction A rule: be_words.induct) simp_all

lemma length_be_words: "length (be_words A) = length A div 4"
  by (induction A rule: be_words.induct) simp_all

lemma blocks_append:
  "length U mod 16 = 0 \<Longrightarrow> blocks s (U @ V) = blocks (blocks s U) V"
proof (induction s U rule: blocks.induct)
  case (1 s ws)
  show ?case
  proof (cases "ws = []")
    case True
    then show ?thesis by (simp add: blocks_Nil)
  next
    case False
    with 1(2) have len: "16 \<le> length ws" by (cases "length ws < 16") auto
    then have m: "length (drop 16 ws) mod 16 = 0" using le_mod_geq [OF len] 1(2) by simp
    have t: "take 16 (ws @ V) = take 16 ws" "drop 16 (ws @ V) = drop 16 ws @ V" using len by simp_all
    have "blocks s (ws @ V) = blocks (compress s (take 16 (ws @ V))) (drop 16 (ws @ V))"
      using False by (subst blocks.simps) simp
    also have "\<dots> = blocks (compress s (take 16 ws)) (drop 16 ws @ V)"
      by (simp only: t)
    also have "\<dots> = blocks (blocks (compress s (take 16 ws)) (drop 16 ws)) V"
      using 1(1) [OF False m] .
    also have "blocks (compress s (take 16 ws)) (drop 16 ws) = blocks s ws"
      using False by (subst (2) blocks.simps) simp
    finally show ?thesis .
  qed
qed

lemma sha256_prefix:
  assumes "length A mod 64 = 0"
  shows "sha256 (A @ R) =
     state_bytes (blocks (blocks H0 (be_words A))
       (be_words (R @ 128 # replicate ((119 - (length A + length R) mod 64) mod 64) 0 @
                  be_bytes 8 (8 * (length A + length R)))))"
proof -
  have a4: "length A mod 4 = 0" using assms by presburger
  have w16: "length (be_words A) mod 16 = 0" using assms unfolding length_be_words by presburger
  show ?thesis
    by (simp add: sha256_def pad_def be_words_append [OF a4] blocks_append [OF w16])
qed

lemma be_bytes_4:
  "be_bytes 4 x =
    [x div 256 div 256 div 256 mod 256, x div 256 div 256 mod 256, x div 256 mod 256,
     x mod 256]"
proof -
  have four: "4 = Suc (Suc (Suc (Suc 0)))" by simp
  show ?thesis unfolding four by (simp only: be_bytes.simps append.simps)
qed

lemma be_bytes_8:
  "be_bytes 8 x =
    [x div 256 div 256 div 256 div 256 div 256 div 256 div 256 mod 256,
     x div 256 div 256 div 256 div 256 div 256 div 256 mod 256,
     x div 256 div 256 div 256 div 256 div 256 mod 256,
     x div 256 div 256 div 256 div 256 mod 256,
     x div 256 div 256 div 256 mod 256, x div 256 div 256 mod 256, x div 256 mod 256, x mod 256]"
proof -
  have eight: "8 = Suc (Suc (Suc (Suc (Suc (Suc (Suc (Suc 0)))))))" by simp
  show ?thesis unfolding eight by (simp only: be_bytes.simps append.simps)
qed

lemma replicate_numeral_eval: "replicate (numeral k) x = x # replicate (pred_numeral k) x"
  by (simp add: numeral_eq_Suc)

lemma base_prefix_state: "blocks H0 (be_words base_prefix) = mid_state"
  apply (simp add: base_prefix_def from_bytes_big_def)
  apply (simp only: blocks_16 blocks_Nil compress_def K256_def H0_def mid_state_def sha_eval)
  done

lemma length_base_prefix: "length base_prefix = 640"
  by (simp add: base_prefix_def)

lemma base_hash_eval:
  assumes "encode (json_string (format_number x)) = T"
  shows "Aircraft_hash (base_aircraft x) =
     from_bytes_big (take 8 (state_bytes (blocks mid_state (be_words
       (base_rest @ T @ 125 # 128 # replicate ((119 - (660 + length T) mod 64) mod 64) 0 @
        be_bytes 8 (8 * (660 + length T)))))))"
proof -
  have m: "length base_prefix mod 64 = 0" by (simp add: length_base_prefix)
  have l: "length base_rest = 19" by (simp add: base_rest_def)
  show ?thesis
    unfolding Aircraft_hash_def hash_of_dict_def canonical_base assms
    by (simp add: sha256_prefix [OF m] base_prefix_state length_base_prefix l)
qed

lemma hash_zero: "Aircraft_hash (base_aircraft zero_f) = 11960936164740239516"
proof -
  have T: "encode (json_string (format_number zero_f)) = [34, 48, 46, 48, 48, 48, 48, 48, 48, 34]"
    by (simp add: format_zero json_string_def json_escape_def encode_def utf8_char_def)
  show ?thesis
    apply (simp only: base_hash_eval [OF T])
    apply (simp add: base_rest_def be_bytes_8 replicate_numeral_eval from_bytes_big_def mid_state_def)
    apply (simp only: blocks_16 blocks_Nil compress_def K256_def sha_eval)
    apply (simp add: be_bytes_4 from_bytes_big_def)
    done
qed

lemma hash_neg_zero: "Aircraft_hash (base_aircraft neg_zero) = 12150950691688081510"
proof -
  have T: "encode (json_string (format_number neg_zero)) = [34, 45, 48, 46, 48, 48, 48, 48, 48, 48, 34]"
    by (simp add: neg_zero_def fmt_eval json_string_def json_escape_def encode_def utf8_char_def)
  show ?thesis
    apply (simp only: base_hash_eval [OF T])
    apply (simp add: base_rest_def be_bytes_8 replicate_numeral_eval from_bytes_big_def mid_state_def)
    apply (simp only: blocks_16 blocks_Nil compress_def K256_def sha_eval)
    apply (simp add: be_bytes_4 from_bytes_big_def)
    done
qed

lemma hash_x_lo: "Aircraft_hash (base_aircraft x_lo) = 5138020264260705440"
proof -
  have T: "encode (json_string (format_number x_lo)) = [34, 48, 46, 48, 48, 55, 56, 49, 50, 34]"
    by (simp add: x_lo_def fmt_eval json_string_def json_escape_def encode_def utf8_char_def)
  show ?thesis
    apply (simp only: base_hash_eval [OF T])
    apply (simp add: base_rest_def be_bytes_8 replicate_numeral_eval from_bytes_big_def mid_state_def)
    apply (simp only: blocks_16 blocks_Nil compress_def K256_def sha_eval)
    apply (simp add: be_bytes_4 from_bytes_big_def)
    done
qed

lemma hash_x_hi: "Aircraft_hash (base_aircraft x_hi) = 7044430671789714442"
proof -
  have T: "encode (json_string (format_number x_hi)) = [34, 48, 46, 48, 48, 55, 56, 49, 51, 34]"
    by (simp add: x_hi_def fmt_eval json_string_def json_escape_def encode_def utf8_char_def)
  show ?thesis
    apply (simp only: base_hash_eval [OF T])
    apply (simp add: base_rest_def be_bytes_8 replicate_numeral_eval from_bytes_big_def mid_state_def)
    apply (simp only: blocks_16 blocks_Nil compress_def K256_def sha_eval)
    apply (simp add: be_bytes_4 from_bytes_big_def)
    done
qed

lemma hash_nan: "Aircraft_hash (base_aircraft NaN) = 10094238799649757305"
proof -
  have T: "encode (json_string (format_number NaN)) = [34, 110, 97, 110, 34]"
    by (simp add:  fmt_eval json_string_def json_escape_def encode_def utf8_char_def)
  show ?thesis
    apply (simp only: base_hash_eval [OF T])
    apply (simp add: base_rest_def be_bytes_8 replicate_numeral_eval from_bytes_big_def mid_state_def)
    apply (simp only: blocks_16 blocks_Nil compress_def K256_def sha_eval)
    apply (simp add: be_bytes_4 from_bytes_big_def)
    done
qed

subsection \<open>Hash and equality\<close>

lemma float_eq_zero_f: "float_eq zero_f zero_f" "float_eq zero_f neg_zero"
  by (simp_all add: zero_f_def neg_zero_def)

lemma obj_eq_same_object: "obj_eq p p"
  by (simp add: obj_eq_def)

text \<open>An aircraft equals itself, also when a field holds a NaN.\<close>

lemma Aircraft_eq_same_object: "Aircraft_eq a a"
  by (simp add: Aircraft_eq_def aircraft_rel_def obj_eq_same_object list_all2_same)

lemma float_values_base_objects: "float_values (base_objects p x) = base_aircraft x"
  by (simp add: float_values_def base_objects_def base_aircraft_def)

text \<open>
  C9: \<open>__hash__\<close> should agree with the generated \<open>__eq__\<close>: equal aircraft, equal
  hashes.  Take two aircraft that share no float object, with \<open>wing_density = 0.0\<close> in one
  and \<open>wing_density = -0.0\<close> in the other: every field of one equals the field of the other
  as a float, \<open>__eq__\<close> is true, and their hashes are 11960936164740239516 and
  12150950691688081510, since the sign of a zero is printed.
\<close>

theorem hash_differs_on_equal_aircraft:
  "Aircraft_eq (base_objects 0 zero_f) (base_objects 100 neg_zero) \<and>
   float_values (base_objects 0 zero_f) = base_aircraft zero_f \<and>
   float_values (base_objects 100 neg_zero) = base_aircraft neg_zero \<and>
   aircraft_rel float_eq (base_aircraft zero_f) (base_aircraft neg_zero) \<and>
   fingerprint (base_aircraft zero_f) \<noteq> fingerprint (base_aircraft neg_zero)"
proof (intro conjI)
  show "Aircraft_eq (base_objects 0 zero_f) (base_objects 100 neg_zero)"
    by (simp add: Aircraft_eq_def aircraft_rel_def base_objects_def obj_eq_def float_eq_zero_f)
  show "float_values (base_objects 0 zero_f) = base_aircraft zero_f"
    by (rule float_values_base_objects)
  show "float_values (base_objects 100 neg_zero) = base_aircraft neg_zero"
    by (rule float_values_base_objects)
  show "aircraft_rel float_eq (base_aircraft zero_f) (base_aircraft neg_zero)"
    by (simp add: aircraft_rel_def base_aircraft_def float_eq_zero_f)
  show "fingerprint (base_aircraft zero_f) \<noteq> fingerprint (base_aircraft neg_zero)"
    by (simp add: fingerprint_def hash_zero hash_neg_zero)
qed

subsection \<open>Precision collapse\<close>

lemma same_rounding_format: "same_rounding x y \<Longrightarrow> format_number x = format_number y"
  by (cases x; cases y) simp_all

lemma same_rounding_map:
  "list_all2 same_rounding xs ys \<Longrightarrow> map format_number xs = map format_number ys"
  by (induction rule: list_all2_induct) (simp_all add: same_rounding_format)

text \<open>
  C2, amended: two aircraft whose corresponding floats have the same sign bit and the same
  rounding (half to even) to six decimal places have the same fingerprint; so have
  \<open>mainwing_span = 2.0\<close> and \<open>mainwing_span = 2.0000001\<close>.
\<close>

theorem precision_collapse:
  assumes "aircraft_rel same_rounding a b"
  shows "fingerprint a = fingerprint b"
proof -
  have "hash_dict a = hash_dict b"
    using assms unfolding aircraft_rel_def hash_dict_def
    by (simp add: same_rounding_format same_rounding_map)
  then show ?thesis by (simp add: fingerprint_def Aircraft_hash_def)
qed

lemma same_rounding_samples:
  "same_rounding zero_f zero_f" "same_rounding two two_eps"
  by (simp_all add: zero_f_def two_def two_eps_def scaled6_def round_half_even_div_def)

theorem precision_collapse_witness:
  "aircraft_rel same_rounding ((base_aircraft zero_f)\<lparr>mainwing_span := two\<rparr>)
     ((base_aircraft zero_f)\<lparr>mainwing_span := two_eps\<rparr>) \<and>
   fingerprint ((base_aircraft zero_f)\<lparr>mainwing_span := two\<rparr>) =
   fingerprint ((base_aircraft zero_f)\<lparr>mainwing_span := two_eps\<rparr>)"
proof -
  have r: "aircraft_rel same_rounding ((base_aircraft zero_f)\<lparr>mainwing_span := two\<rparr>)
     ((base_aircraft zero_f)\<lparr>mainwing_span := two_eps\<rparr>)"
    by (simp add: aircraft_rel_def base_aircraft_def same_rounding_samples)
  show ?thesis using r precision_collapse [OF r] by simp
qed

lemma agree_samples: "agree_to_6dp zero_f zero_f" "agree_to_6dp x_lo x_hi"
  by (simp_all add: zero_f_def x_lo_def x_hi_def trunc6_def)

text \<open>
  C2 as stated fails: \<open>0.0078124\<close> and \<open>0.0078126\<close> agree up to the sixth decimal
  place and differ in the seventh, and they print as \<open>0.007812\<close> and \<open>0.007813\<close>.
\<close>

theorem seventh_decimal_counterexample:
  "aircraft_rel agree_to_6dp (base_aircraft x_lo) (base_aircraft x_hi) \<and>
   fingerprint (base_aircraft x_lo) \<noteq> fingerprint (base_aircraft x_hi)"
proof
  show "aircraft_rel agree_to_6dp (base_aircraft x_lo) (base_aircraft x_hi)"
    by (simp add: aircraft_rel_def base_aircraft_def agree_samples)
  show "fingerprint (base_aircraft x_lo) \<noteq> fingerprint (base_aircraft x_hi)"
    by (simp add: fingerprint_def hash_x_lo hash_x_hi)
qed

subsection \<open>Non-finite fields\<close>

text \<open>
  C4 as stated fails: with \<open>wing_density = nan\<close> the call returns a value and raises
  nothing.
\<close>

theorem nan_is_hashed:
  "fingerprint (base_aircraft NaN) = Inr 10094238799649757305 \<and>
   \<not> all_finite (base_aircraft NaN)"
proof
  show "fingerprint (base_aircraft NaN) = Inr 10094238799649757305"
    by (simp add: fingerprint_def hash_nan)
  show "\<not> all_finite (base_aircraft NaN)"
    by (simp add: all_finite_def aircraft_floats_def base_aircraft_def)
qed

lemma nonfinite_format:
  "\<not> isfinite x \<Longrightarrow> format_number x \<in> {''nan'', ''inf'', ''-inf''}"
  by (cases x) auto

text \<open>Every float of the aircraft is held, formatted, by a value of \<open>hash_dict\<close>.\<close>

lemma float_in_hash_dict:
  assumes "x \<in> set (aircraft_floats a)"
  shows "\<exists>kv \<in> set (hash_dict a). format_number x \<in> set (jvalue_strings (snd kv))"
proof -
  have "concat (map (\<lambda>kv. jvalue_strings (snd kv)) (hash_dict a)) =
        map format_number (aircraft_floats a)"
    by (simp add: hash_dict_def aircraft_floats_def)
  then have "format_number x \<in> set (concat (map (\<lambda>kv. jvalue_strings (snd kv)) (hash_dict a)))"
    using assms by simp
  then show ?thesis by auto
qed

text \<open>Every string of the dict stands, quoted, in the text that \<open>json.dumps\<close> returns.\<close>

lemma sublist_in_context: "sublist x y \<Longrightarrow> sublist x (u @ y @ v)"
proof -
  assume "sublist x y"
  then obtain ps ss where "y = ps @ x @ ss" by (auto simp: sublist_def)
  then have "u @ y @ v = (u @ ps) @ x @ (ss @ v)" by simp
  then show ?thesis unfolding sublist_def by blast
qed

lemma sublist_join: "x \<in> set xs \<Longrightarrow> sublist x (join sep xs)"
proof (induction sep xs rule: join.induct)
  case (1 sep)
  then show ?case by simp
next
  case (2 sep y)
  then show ?case by simp
next
  case (3 sep y z zs)
  show ?case
  proof (cases "x = y")
    case True
    then show ?thesis using sublist_in_context [of x x "[]" "sep @ join sep (z # zs)"] by simp
  next
    case False
    then have "sublist x (join sep (z # zs))" using 3 by simp
    then show ?thesis using sublist_in_context [of x "join sep (z # zs)" "y @ sep" "[]"] by simp
  qed
qed

lemma string_in_json_value:
  assumes "s \<in> set (jvalue_strings v)"
  shows "sublist (json_string s) (json_value v)"
proof (cases v)
  case (JStr t)
  then show ?thesis using assms by simp
next
  case (JList ss)
  then have "sublist (json_string s) (join '', '' (map json_string ss))"
    using assms by (simp add: sublist_join)
  then show ?thesis
    using JList sublist_in_context [of "json_string s" "join '', '' (map json_string ss)" "''[''" "'']''"]
    by simp
qed

lemma string_in_json_dumps:
  assumes "kv \<in> set d" and "s \<in> set (jvalue_strings (snd kv))"
  shows "sublist (json_string s) (json_dumps d)"
proof -
  have "sublist (json_string s) (json_item kv)"
    unfolding json_item_def
    using sublist_in_context [OF string_in_json_value [OF assms(2)], of "json_string (fst kv) @ '': ''" "[]"]
    by simp
  moreover have "sublist (json_item kv) (join '', '' (map json_item (sort_key fst d)))"
    using assms(1) by (simp add: sublist_join)
  ultimately have "sublist (json_string s) (join '', '' (map json_item (sort_key fst d)))"
    by (rule sublist_order.order_trans)
  then show ?thesis
    unfolding json_dumps_def by (rule sublist_in_context)
qed

text \<open>
  C4, amended: for an aircraft with a NaN or an infinity in some field, \<open>__hash__\<close>
  raises nothing and returns the hash of the serialized dict, and that field is serialized as
  \<open>nan\<close>, \<open>inf\<close> or \<open>-inf\<close>: this string is a value of \<open>hash_dict\<close>, and
  it stands, quoted, in the text that is hashed.
\<close>

theorem nonfinite_is_serialized:
  assumes "x \<in> set (aircraft_floats a)" and "\<not> isfinite x"
  shows "fingerprint a =
      Inr (from_bytes_big (take 8 (sha256 (encode (json_dumps (hash_dict a)))))) \<and>
    format_number x \<in> {''nan'', ''inf'', ''-inf''} \<and>
    (\<exists>kv \<in> set (hash_dict a). format_number x \<in> set (jvalue_strings (snd kv))) \<and>
    sublist (json_string (format_number x)) (json_dumps (hash_dict a))"
proof -
  from float_in_hash_dict [OF assms(1)] obtain kv
    where kv: "kv \<in> set (hash_dict a)" "format_number x \<in> set (jvalue_strings (snd kv))"
    by blast
  have "sublist (json_string (format_number x)) (json_dumps (hash_dict a))"
    using kv by (rule string_in_json_dumps)
  then show ?thesis
    using kv nonfinite_format [OF assms(2)]
    by (auto simp: fingerprint_def Aircraft_hash_def hash_of_dict_def canonical_bytes_def)
qed

theorem nonfinite_is_serialized_witness:
  "NaN \<in> set (aircraft_floats (base_aircraft NaN)) \<and> \<not> isfinite NaN \<and>
   fingerprint (base_aircraft NaN) =
     Inr (from_bytes_big (take 8 (sha256 (encode (json_dumps (hash_dict (base_aircraft NaN))))))) \<and>
   format_number NaN = ''nan'' \<and>
   (''wing_density'', JStr ''nan'') \<in> set (hash_dict (base_aircraft NaN)) \<and>
   sublist (json_string ''nan'') (json_dumps (hash_dict (base_aircraft NaN)))"
proof -
  have m: "NaN \<in> set (aircraft_floats (base_aircraft NaN))"
    by (simp add: aircraft_floats_def base_aircraft_def)
  have n: "\<not> isfinite NaN"
    by simp
  have d: "(''wing_density'', JStr ''nan'') \<in> set (hash_dict (base_aircraft NaN))"
    by (simp add: hash_dict_def base_aircraft_def)
  show ?thesis
    using m d nonfinite_is_serialized [OF m n] by simp
qed

subsection \<open>\<open>fromDict\<close>\<close>

lemma remove_all_Nil: "remove_all sub [] = []"
  by (simp add: remove_all.simps)

lemma remove_all_Cons:
  "remove_all sub (c # cs) =
     (if sub \<noteq> [] \<and> prefix sub (c # cs) then remove_all sub (drop (length sub) (c # cs))
      else c # remove_all sub cs)"
  by (subst remove_all.simps) simp

lemma aircraft_kwargs_flatten: "aircraft_kwargs (flatten r) = Aircraft_items (aircraft r)"
  by (simp add: aircraft_kwargs_def flatten_def Results_items_def Aircraft_items_def
      remove_all_Nil remove_all_Cons)

lemma result_kwargs_flatten: "result_kwargs (flatten r) = Results_items r"
  by (simp add: result_kwargs_def flatten_def Results_items_def Aircraft_items_def)

lemma Aircraft_init_items: "Aircraft_init (Aircraft_items a) = Inr a"
  by (simp add: Aircraft_init_def Aircraft_items_def keywords_match_def Aircraft_field_names_def)

lemma Results_init_items: "Results_init (Results_items r) (aircraft r) = Inr r"
  by (simp add: Results_init_def Results_items_def keywords_match_def Results_field_names_def)

text \<open>
  C6: flattening a result into one mapping, the fields of its aircraft under the prefix
  \<open>aircraft.\<close>, and rebuilding it with \<open>fromDict\<close> gives back the result, equal
  in every field and in every field of the aircraft.
\<close>

theorem flatten_roundtrip: "fromDict (flatten r) = Inr r"
  by (simp add: fromDict_def aircraft_kwargs_flatten result_kwargs_flatten Aircraft_init_items
      Results_init_items)


lemma odd_flat_keys: "distinct (map fst odd_flat)"
  by (simp add: odd_flat_def Results_items_def Aircraft_items_def)

lemma odd_flat_code: "fromDict odd_flat = Inr sample_result"
proof -
  have a: "aircraft_kwargs odd_flat = Aircraft_items sample_aircraft"
    by (simp add: aircraft_kwargs_def odd_flat_def Results_items_def Aircraft_items_def
        remove_all_Nil remove_all_Cons sample_aircraft_def)
  have r: "result_kwargs odd_flat = Results_items sample_result"
    by (simp add: result_kwargs_def odd_flat_def Results_items_def Aircraft_items_def)
  have s: "aircraft sample_result = sample_aircraft"
    by (simp add: sample_result_def)
  show ?thesis
    using Results_init_items [of sample_result]
    by (simp add: fromDict_def a r Aircraft_init_items s)
qed

lemma odd_flat_spec: "fromFlatMapping_spec odd_flat = Inl TypeError"
  by (simp add: fromFlatMapping_spec_def spec_aircraft_kwargs_def odd_flat_def Results_items_def
      Aircraft_items_def Aircraft_init_def keywords_match_def Aircraft_field_names_def)

text \<open>
  C5 as stated fails: the code selects the keys that contain \<open>aircraft.\<close> anywhere and
  removes every occurrence.  The key \<open>m_aircraft.total\<close> has no such prefix, yet the code
  reads it as the field \<open>m_total\<close> of the aircraft and builds the result, where the
  partition by prefix leaves the aircraft without \<open>m_total\<close>.
\<close>

theorem marker_inside_key_counterexample:
  "distinct (map fst odd_flat) \<and> fromDict odd_flat = Inr sample_result \<and>
   fromFlatMapping_spec odd_flat = Inl TypeError"
  by (simp add: odd_flat_keys odd_flat_code odd_flat_spec)

lemma prefix_contains: "prefix sub s \<Longrightarrow> contains sub s"
  by (cases s) simp_all

lemma remove_all_absent: "\<not> contains sub s \<Longrightarrow> remove_all sub s = s"
  by (induction s) (simp_all add: remove_all_Nil remove_all_Cons)

lemma remove_all_prefix_only:
  assumes "prefix ''aircraft.'' k" "\<not> contains ''aircraft.'' (drop 9 k)"
  shows "remove_all ''aircraft.'' k = drop 9 k"
proof -
  from assms(1) have "k \<noteq> []" by auto
  then have "remove_all ''aircraft.'' k = remove_all ''aircraft.'' (drop 9 k)"
    using assms(1) by (subst remove_all.simps) (simp add: eval_nat_numeral)
  then show ?thesis using assms(2) by (simp add: remove_all_absent)
qed

lemma update_new_key: "k \<notin> fst ` set al \<Longrightarrow> AList.update k v al = al @ [(k, v)]"
  by (induction al) auto

lemma fold_update_new_keys:
  "distinct (map fst xs) \<Longrightarrow> fst ` set xs \<inter> fst ` set acc = {} \<Longrightarrow>
   fold (\<lambda>kv acc. AList.update (fst kv) (snd kv) acc) xs acc = acc @ xs"
proof (induction xs arbitrary: acc)
  case Nil
  then show ?case by simp
next
  case (Cons x xs)
  have new: "fst x \<notin> fst ` set acc" using Cons.prems(2) by auto
  have "fst ` set xs \<inter> fst ` set (acc @ [x]) = {}"
    using Cons.prems by (auto simp: image_iff)
  with Cons show ?case by (simp add: update_new_key [OF new])
qed

lemma drop_prefix_inj:
  "prefix p k \<Longrightarrow> prefix p k' \<Longrightarrow> drop (length p) k = drop (length p) k' \<Longrightarrow> k = k'"
  by (auto simp: prefix_def)

lemma kwargs_agree:
  assumes d: "distinct (map fst d)" and w: "list_all (\<lambda>kv. prefix_only_key (fst kv)) d"
  shows "aircraft_kwargs d = spec_aircraft_kwargs d" and "result_kwargs d = spec_result_kwargs d"
proof -
  have c: "contains ''aircraft.'' (fst kv) = prefix ''aircraft.'' (fst kv)" if "kv \<in> set d" for kv
    using w that prefix_contains [of "''aircraft.''" "fst kv"]
    by (auto simp: list_all_iff prefix_only_key_def)
  have f: "filter (\<lambda>kv. contains ''aircraft.'' (fst kv)) d =
           filter (\<lambda>kv. prefix ''aircraft.'' (fst kv)) d"
    using c by (auto intro: filter_cong)
  show "result_kwargs d = spec_result_kwargs d"
    unfolding result_kwargs_def spec_result_kwargs_def using c by (auto intro: filter_cong)
  let ?xs = "filter (\<lambda>kv. prefix ''aircraft.'' (fst kv)) d"
  have r: "remove_all ''aircraft.'' (fst kv) = drop 9 (fst kv)" if "kv \<in> set ?xs" for kv
    using w that c [of kv] by (auto simp: list_all_iff prefix_only_key_def remove_all_prefix_only)
  have "fold (\<lambda>kv acc. AList.update (remove_all ''aircraft.'' (fst kv)) (snd kv) acc) ?xs [] =
        fold (\<lambda>kv acc. AList.update (fst kv) (snd kv) acc)
          (map (\<lambda>kv. (drop 9 (fst kv), snd kv)) ?xs) []"
    using r by (auto simp: fold_map comp_def intro!: fold_cong)
  moreover have "distinct (map fst (map (\<lambda>kv. (drop 9 (fst kv), snd kv)) ?xs))"
  proof -
    have dk: "distinct (map fst ?xs)" using d by (rule distinct_map_filter)
    have inj: "inj_on (drop 9) (set (map fst ?xs))"
      using drop_prefix_inj [of "''aircraft.''"] by (auto intro!: inj_onI simp: eval_nat_numeral)
    have "distinct (map (drop 9) (map fst ?xs))"
      unfolding distinct_map [of "drop 9" "map fst ?xs"] using dk inj by blast
    then show ?thesis by (simp add: comp_def)
  qed
  ultimately show "aircraft_kwargs d = spec_aircraft_kwargs d"
    unfolding aircraft_kwargs_def spec_aircraft_kwargs_def f
    by (simp add: fold_update_new_keys)
qed

text \<open>
  C5, amended: for a flat mapping in whose keys \<open>aircraft.\<close> occurs only as the prefix
  and only once, \<open>fromDict\<close> partitions by the prefix: the keys that carry it, with the
  prefix stripped, construct the aircraft, and the other keys, unchanged, construct the result.
\<close>

theorem fromDict_prefix_partition:
  assumes "distinct (map fst d)" and "list_all (\<lambda>kv. prefix_only_key (fst kv)) d"
  shows "fromDict d = fromFlatMapping_spec d \<and>
    aircraft_kwargs d = map (\<lambda>kv. (drop 9 (fst kv), snd kv)) (filter (\<lambda>kv. prefix ''aircraft.'' (fst kv)) d) \<and>
    result_kwargs d = filter (\<lambda>kv. \<not> prefix ''aircraft.'' (fst kv)) d"
proof -
  have "fromDict d = fromFlatMapping_spec d"
    unfolding fromDict_def fromFlatMapping_spec_def kwargs_agree [OF assms] by (rule refl)
  then show ?thesis
    using kwargs_agree [OF assms] by (simp add: spec_aircraft_kwargs_def spec_result_kwargs_def)
qed

theorem fromDict_prefix_partition_witness:
  "distinct (map fst (flatten sample_result)) \<and>
   list_all (\<lambda>kv. prefix_only_key (fst kv)) (flatten sample_result) \<and>
   fromDict (flatten sample_result) = fromFlatMapping_spec (flatten sample_result)"
proof -
  have d: "distinct (map fst (flatten sample_result))"
    by (simp add: flatten_def Results_items_def Aircraft_items_def)
  have w: "list_all (\<lambda>kv. prefix_only_key (fst kv)) (flatten sample_result)"
    by (simp add: flatten_def Results_items_def Aircraft_items_def prefix_only_key_def)
  show ?thesis using d w fromDict_prefix_partition [OF d w] by simp
qed

subsection \<open>Determinism and insertion order\<close>

lemma filter_same_key:
  "distinct (map f xs) \<Longrightarrow> k \<in> set xs \<Longrightarrow> filter (\<lambda>x. f k = f x) xs = [k]"
proof (induction xs)
  case Nil
  then show ?case by simp
next
  case (Cons x xs)
  show ?case
  proof (cases "x = k")
    case True
    have "filter (\<lambda>y. f k = f y) xs = []"
      using Cons.prems(1) True by (auto simp: filter_empty_conv)
    then show ?thesis using True by simp
  next
    case False
    then have kx: "k \<in> set xs" using Cons.prems(2) by simp
    have "f x \<notin> f ` set xs" using Cons.prems(1) by simp
    moreover have "f k \<in> f ` set xs" using kx by (rule imageI)
    ultimately have "f k \<noteq> f x" by metis
    then show ?thesis using Cons kx by simp
  qed
qed

lemma sort_key_permutation:
  assumes "mset xs = mset ys" and "distinct (map f ys)"
  shows "sort_key f xs = sort_key f ys"
proof (rule properties_for_sort_key)
  show "mset (sort_key f ys) = mset xs" using assms(1) by simp
  show "sorted (map f (sort_key f ys))" by simp
  have dx: "distinct (map f xs)"
    using assms by (metis mset_eq_imp_distinct_iff mset_map)
  fix k assume "k \<in> set (sort_key f ys)"
  then have ky: "k \<in> set ys" by simp
  then have kx: "k \<in> set xs" using assms(1) by (metis mset_eq_setD)
  have ds: "distinct (map f (sort_key f ys))"
    using assms(2) by (metis mset_eq_imp_distinct_iff mset_map mset_sort)
  have "filter (\<lambda>x. f k = f x) (sort_key f ys) = [k]"
    using ds \<open>k \<in> set (sort_key f ys)\<close> by (rule filter_same_key)
  moreover have "filter (\<lambda>x. f k = f x) xs = [k]" using dx kx by (rule filter_same_key)
  ultimately show "filter (\<lambda>x. f k = f x) (sort_key f ys) = filter (\<lambda>x. f k = f x) xs" by simp
qed

lemma hash_dict_keys_distinct: "distinct (map fst (hash_dict a))"
  by (simp add: hash_dict_def)

text \<open>
  C8: the fingerprint is a function of the field values.  The serialization sorts the items
  by key, so a dict with the items of \<open>hash_dict a\<close> inserted in any other order is
  serialized to the same text and hashed to the fingerprint of \<open>a\<close>.
\<close>

theorem hash_ignores_insertion_order:
  assumes "mset d = mset (hash_dict a)"
  shows "json_dumps d = json_dumps (hash_dict a) \<and> Inr (hash_of_dict d) = fingerprint a"
proof -
  have "sort_key fst d = sort_key fst (hash_dict a)"
    using assms hash_dict_keys_distinct by (rule sort_key_permutation)
  then have "json_dumps d = json_dumps (hash_dict a)" by (simp add: json_dumps_def)
  then show ?thesis
    by (simp add: fingerprint_def Aircraft_hash_def hash_of_dict_def canonical_bytes_def)
qed

theorem hash_ignores_insertion_order_witness:
  "mset (rev (hash_dict (base_aircraft zero_f))) = mset (hash_dict (base_aircraft zero_f)) \<and>
   json_dumps (rev (hash_dict (base_aircraft zero_f))) = json_dumps (hash_dict (base_aircraft zero_f)) \<and>
   Inr (hash_of_dict (rev (hash_dict (base_aircraft zero_f)))) = fingerprint (base_aircraft zero_f)"
proof -
  have m: "mset (rev (hash_dict (base_aircraft zero_f))) = mset (hash_dict (base_aircraft zero_f))"
    by simp
  show ?thesis using m hash_ignores_insertion_order [OF m] by simp
qed

subsection \<open>The order of the flap sequences\<close>

lemma format_two: "format_number two = ''2.000000''" "format_number two_eps = ''2.000000''"
  by (simp_all add: two_def two_eps_def fmt_eval)

text \<open>
  C7 as stated fails: swapping \<open>2.0\<close> and \<open>2.0000001\<close> in \<open>flap_start\<close>
  is a reordering that changes the list and keeps the fingerprint, since both elements print as
  \<open>2.000000\<close>.
\<close>

theorem reordering_counterexample:
  "flap_start flaps_ab \<noteq> flap_start flaps_ba \<and>
   mset (flap_start flaps_ab) = mset (flap_start flaps_ba) \<and>
   flaps_ba = flaps_ab\<lparr>flap_start := rev (flap_start flaps_ab)\<rparr> \<and>
   fingerprint flaps_ab = fingerprint flaps_ba"
proof -
  have "hash_dict flaps_ab = hash_dict flaps_ba"
    by (simp add: hash_dict_def flaps_ab_def flaps_ba_def format_two)
  then show ?thesis
    by (simp add: fingerprint_def Aircraft_hash_def flaps_ab_def flaps_ba_def two_def two_eps_def)
qed

text \<open>The characters that \<open>format_number\<close> prints are not escaped.\<close>

lemma digit_char_plain: "d < 10 \<Longrightarrow> digit_char d \<in> set ''0123456789''"
  unfolding digit_char_def by (rule nth_mem) simp

lemma dec_chars: "set (dec n) \<subseteq> set ''0123456789''"
proof (induction n rule: dec.induct)
  case (1 n)
  show ?case
  proof (cases "n < 10")
    case True
    then show ?thesis using digit_char_plain [of n] by (subst dec.simps) simp
  next
    case False
    have "n mod 10 < 10" by simp
    then have "digit_char (n mod 10) \<in> set ''0123456789''" by (rule digit_char_plain)
    then show ?thesis using False 1 by (subst dec.simps) simp
  qed
qed

lemma digits_fixed_chars: "set (digits_fixed k n) \<subseteq> set ''0123456789''"
proof (induction k arbitrary: n)
  case 0
  then show ?case by simp
next
  case (Suc k)
  have "n mod 10 < 10" by simp
  then have "digit_char (n mod 10) \<in> set ''0123456789''" by (rule digit_char_plain)
  then show ?case using Suc [of "n div 10"] by simp
qed

lemma format_number_chars: "set (format_number x) \<subseteq> set ''0123456789-.naif''"
proof -
  define P where "P = set ''0123456789-.naif''"
  have D: "set ''0123456789'' \<subseteq> P"
    unfolding P_def by simp
  have M: "CHR ''-'' \<in> P" "CHR ''.'' \<in> P" "CHR ''n'' \<in> P" "CHR ''a'' \<in> P"
    "CHR ''i'' \<in> P" "CHR ''f'' \<in> P"
    unfolding P_def by simp_all
  have "set (format_number x) \<subseteq> P"
  proof (cases x)
    case (Finite s m e)
    have "set (dec (scaled6 m e div 10 ^ 6)) \<subseteq> P"
      using dec_chars D by (rule subset_trans)
    moreover have "set (digits_fixed 6 (scaled6 m e mod 10 ^ 6)) \<subseteq> P"
      using digits_fixed_chars D by (rule subset_trans)
    ultimately have "set (fixed6 (scaled6 m e)) \<subseteq> P"
      using M by (simp add: fixed6_def)
    then show ?thesis using Finite M by (cases s) simp_all
  next
    case (Infinity s)
    then show ?thesis using M by (cases s) simp_all
  next
    case NaN
    then show ?thesis using M by simp
  qed
  then show ?thesis by (simp only: P_def)
qed

lemma plain_escape: "c \<in> set ''0123456789-.naif'' \<Longrightarrow> json_escape c = [c] \<and> c \<noteq> CHR 0x22"
  by (auto simp: json_escape_def)

lemma plain_string:
  "set s \<subseteq> set ''0123456789-.naif'' \<Longrightarrow> json_string s = CHR 0x22 # s @ [CHR 0x22]"
proof -
  assume a: "set s \<subseteq> set ''0123456789-.naif''"
  have "concat (map json_escape s) = s" using a
  proof (induction s)
    case Nil
    then show ?case by simp
  next
    case (Cons c s)
    then have "json_escape c = [c]" using plain_escape [of c] by simp
    then show ?case using Cons by simp
  qed
  then show ?thesis by (simp add: json_string_def)
qed

lemma split_at_quote:
  "q \<notin> set s \<Longrightarrow> q \<notin> set t \<Longrightarrow> s @ q # r = t @ q # r' \<Longrightarrow> s = t \<and> r = r'"
proof (induction s arbitrary: t)
  case Nil
  then show ?case by (cases t) auto
next
  case (Cons c s)
  then show ?case by (cases t) auto
qed

lemma join_Cons: "join sep (x # xs) = x @ (if xs = [] then [] else sep @ join sep xs)"
  by (cases xs) simp_all

lemma quoted_join_inj:
  assumes "sep \<noteq> []"
  shows "\<forall>s \<in> set ss. q \<notin> set s \<Longrightarrow> \<forall>t \<in> set ts. q \<notin> set t \<Longrightarrow>
    join sep (map (\<lambda>s. q # s @ [q]) ss) = join sep (map (\<lambda>s. q # s @ [q]) ts) \<Longrightarrow> ss = ts"
proof (induction ss arbitrary: ts)
  case Nil
  then show ?case by (cases ts) (simp_all add: join_Cons)
next
  case (Cons s ss)
  show ?case
  proof (cases ts)
    case Nil
    then show ?thesis using Cons.prems(3) by (simp add: join_Cons)
  next
    case (Cons t ts')
    let ?R = "\<lambda>xs. if xs = [] then [] else sep @ join sep (map (\<lambda>s. q # s @ [q]) xs)"
    have eq: "s @ q # ?R ss = t @ q # ?R ts'"
      using Cons.prems(3) Cons by (simp add: join_Cons)
    have qs: "q \<notin> set s" "q \<notin> set t" using Cons.prems(1,2) Cons by simp_all
    from split_at_quote [OF qs eq] have st: "s = t" and R: "?R ss = ?R ts'" by simp_all
    have "ss = ts'"
    proof (cases "ss = []")
      case True
      then show ?thesis using R assms by (cases "ts' = []") simp_all
    next
      case False
      then have "ts' \<noteq> []" using R assms by (cases "ts' = []") simp_all
      then have "join sep (map (\<lambda>s. q # s @ [q]) ss) = join sep (map (\<lambda>s. q # s @ [q]) ts')"
        using R False by simp
      then show ?thesis using Cons.IH [of ts'] Cons.prems(1,2) Cons by simp
    qed
    then show ?thesis using st Cons by simp
  qed
qed

lemma json_list_inj:
  assumes "join '', '' (map json_string (map format_number xs)) =
           join '', '' (map json_string (map format_number ys))"
  shows "map format_number xs = map format_number ys"
proof -
  have p: "json_string (format_number x) = CHR 0x22 # format_number x @ [CHR 0x22]" for x
    using plain_string [OF format_number_chars] .
  have q: "CHR 0x22 \<notin> set (format_number x)" for x
    using format_number_chars [of x] plain_escape by blast
  have "join '', '' (map (\<lambda>s. CHR 0x22 # s @ [CHR 0x22]) (map format_number xs)) =
        join '', '' (map (\<lambda>s. CHR 0x22 # s @ [CHR 0x22]) (map format_number ys))"
    using assms by (simp add: comp_def p)
  then show ?thesis
    using quoted_join_inj [of "'', ''" "map format_number xs" "CHR 0x22" "map format_number ys"] q
    by auto
qed

lemma utf8_char_nonempty: "utf8_char c \<noteq> []"
  by (simp add: utf8_char_def Let_def)

lemma utf8_char_split:
  assumes a: "utf8_char c @ r = utf8_char d @ r'"
  shows "c = d \<and> r = r'"
proof -
  let ?m = "of_char c :: nat" and ?n = "of_char d :: nat"
  have "?m = ?n \<and> r = r'"
  proof (cases "?m < 128")
    case True
    then show ?thesis using a by (cases "?n < 128") (simp_all add: utf8_char_def Let_def)
  next
    case False
    show ?thesis
    proof (cases "?n < 128")
      case True
      then show ?thesis using a False by (simp add: utf8_char_def Let_def)
    next
      case n: False
      have "?m div 64 = ?n div 64" "?m mod 64 = ?n mod 64" "r = r'"
        using a False n by (simp_all add: utf8_char_def Let_def)
      then show ?thesis by (metis div_mult_mod_eq)
    qed
  qed
  then show ?thesis by simp
qed

lemma encode_Cons: "encode (c # s) = utf8_char c @ encode s"
  by (simp add: encode_def)

lemma encode_inj: "encode s = encode t \<Longrightarrow> s = t"
proof (induction s arbitrary: t)
  case Nil
  then show ?case using utf8_char_nonempty by (cases t) (simp_all add: encode_Cons, simp add: encode_def)
next
  case (Cons c s)
  show ?case
  proof (cases t)
    case Nil
    then show ?thesis using Cons.prems utf8_char_nonempty [of c] by (simp add: encode_Cons, simp add: encode_def)
  next
    case (Cons d t')
    then have "utf8_char c @ encode s = utf8_char d @ encode t'"
      using Cons.prems by (simp add: encode_Cons)
    from utf8_char_split [OF this] Cons.IH [of t'] Cons show ?thesis by simp
  qed
qed


lemma flap_start_serialized:
  assumes "json_dumps (hash_dict (a\<lparr>flap_start := xs\<rparr>)) =
           json_dumps (hash_dict (a\<lparr>flap_start := ys\<rparr>))"
  shows "map format_number xs = map format_number ys"
  using assms by (intro json_list_inj) (simp add: json_dumps_def sorted_hash_dict json_item_def)

lemma flap_end_serialized:
  assumes "json_dumps (hash_dict (a\<lparr>flap_end := xs\<rparr>)) =
           json_dumps (hash_dict (a\<lparr>flap_end := ys\<rparr>))"
  shows "map format_number xs = map format_number ys"
  using assms by (intro json_list_inj) (simp add: json_dumps_def sorted_hash_dict json_item_def)

lemma flap_angle_serialized:
  assumes "json_dumps (hash_dict (a\<lparr>flap_angle := xs\<rparr>)) =
           json_dumps (hash_dict (a\<lparr>flap_angle := ys\<rparr>))"
  shows "map format_number xs = map format_number ys"
  using assms by (intro json_list_inj) (simp add: json_dumps_def sorted_hash_dict json_item_def)

lemma flap_c_ratio_serialized:
  assumes "json_dumps (hash_dict (a\<lparr>flap_c_ratio := xs\<rparr>)) =
           json_dumps (hash_dict (a\<lparr>flap_c_ratio := ys\<rparr>))"
  shows "map format_number xs = map format_number ys"
  using assms by (intro json_list_inj) (simp add: json_dumps_def sorted_hash_dict json_item_def)

text \<open>
  C7, amended: a reordering of \<open>flap_start\<close>, \<open>flap_end\<close>, \<open>flap_angle\<close>
  or \<open>flap_c_ratio\<close> that changes the sequence of six-decimal strings changes the bytes
  that are hashed.
\<close>

theorem reordering_changes_serialization:
  assumes "map format_number xs \<noteq> map format_number ys"
  shows "canonical_bytes (hash_dict (a\<lparr>flap_start := xs\<rparr>)) \<noteq>
      canonical_bytes (hash_dict (a\<lparr>flap_start := ys\<rparr>)) \<and>
    canonical_bytes (hash_dict (a\<lparr>flap_end := xs\<rparr>)) \<noteq>
      canonical_bytes (hash_dict (a\<lparr>flap_end := ys\<rparr>)) \<and>
    canonical_bytes (hash_dict (a\<lparr>flap_angle := xs\<rparr>)) \<noteq>
      canonical_bytes (hash_dict (a\<lparr>flap_angle := ys\<rparr>)) \<and>
    canonical_bytes (hash_dict (a\<lparr>flap_c_ratio := xs\<rparr>)) \<noteq>
      canonical_bytes (hash_dict (a\<lparr>flap_c_ratio := ys\<rparr>))"
  using assms flap_start_serialized [where a = a and xs = xs and ys = ys] flap_end_serialized [where a = a and xs = xs and ys = ys]
    flap_angle_serialized [where a = a and xs = xs and ys = ys] flap_c_ratio_serialized [where a = a and xs = xs and ys = ys]
  by (auto simp: canonical_bytes_def dest: encode_inj)

theorem reordering_changes_serialization_witness:
  "mset [zero_f, two] = mset [two, zero_f] \<and>
   map format_number [zero_f, two] \<noteq> map format_number [two, zero_f] \<and>
   (canonical_bytes (hash_dict (base_aircraft zero_f\<lparr>flap_start := [zero_f, two]\<rparr>)) \<noteq>
      canonical_bytes (hash_dict (base_aircraft zero_f\<lparr>flap_start := [two, zero_f]\<rparr>)) \<and>
    canonical_bytes (hash_dict (base_aircraft zero_f\<lparr>flap_end := [zero_f, two]\<rparr>)) \<noteq>
      canonical_bytes (hash_dict (base_aircraft zero_f\<lparr>flap_end := [two, zero_f]\<rparr>)) \<and>
    canonical_bytes (hash_dict (base_aircraft zero_f\<lparr>flap_angle := [zero_f, two]\<rparr>)) \<noteq>
      canonical_bytes (hash_dict (base_aircraft zero_f\<lparr>flap_angle := [two, zero_f]\<rparr>)) \<and>
    canonical_bytes (hash_dict (base_aircraft zero_f\<lparr>flap_c_ratio := [zero_f, two]\<rparr>)) \<noteq>
      canonical_bytes (hash_dict (base_aircraft zero_f\<lparr>flap_c_ratio := [two, zero_f]\<rparr>)))"
proof -
  have h: "map format_number [zero_f, two] \<noteq> map format_number [two, zero_f]"
    by (simp add: format_zero format_two)
  have m: "mset [zero_f, two] = mset [two, zero_f]"
    by simp
  show ?thesis
    using h m reordering_changes_serialization [OF h, where a = "base_aircraft zero_f"] by blast
qed

subsection \<open>The code against the algorithm of the specification\<close>


















end
